theory Spec2Isabelle
  imports Complex_Main
begin

section \<open>Python values and the built-ins the adapter relies on\<close>

text \<open>
  The module \<^verbatim>\<open>skyportal/facility_apis/swift.py\<close> works on free-form JSON-like
  dictionaries (\<^verbatim>\<open>request.payload\<close>, \<^verbatim>\<open>allocation.altdata\<close>, decoded HTTP bodies).
  Their values are modelled by one datatype. A float is denoted by the rational number it
  equals (only finite floats occur); a dictionary is an association list in which the first
  binding of a key is the one seen by a lookup.
\<close>

datatype pyval =
    PNone
  | PBool bool
  | PInt int
  | PFloat rat
  | PStr string
  | PBytes string
  | PList "pyval list"
  | PDict "(string \<times> pyval) list"

type_synonym pydict = "(string \<times> pyval) list"

text \<open>
  Exceptions are values. \<open>ValueError\<close> is the class the module raises for every rejected
  input (\<^verbatim>\<open>raise ValueError(...)\<close>); it is also what \<^verbatim>\<open>int("x")\<close>,
  \<^verbatim>\<open>tuple.index\<close> and a wrong format code raise. \<open>ValueErrorFrom p e\<close> is
  \<^verbatim>\<open>ValueError(f"{p}{e}")\<close>: a message made of a fixed prefix and the text of a caught
  exception. The messages of built-in exceptions that interpolate a \<^verbatim>\<open>repr\<close> are cut before
  the interpolated part, and quotation marks inside a message are left out.
\<close>

datatype exn =
    ValueError string
  | ValueErrorFrom string exn
  | KeyError string
  | TypeError string
  | IndexError string
  | JSONDecodeError
  | LibraryError string

text \<open>
  \<^verbatim>\<open>isinstance(e, ValueError)\<close>: \<^verbatim>\<open>json.JSONDecodeError\<close> is a subclass of
  \<^verbatim>\<open>ValueError\<close>, \<^verbatim>\<open>KeyError\<close> and \<^verbatim>\<open>IndexError\<close> are lookup errors.
\<close>

fun is_ValueError :: "exn \<Rightarrow> bool" where
  "is_ValueError (ValueError m) = True"
| "is_ValueError (ValueErrorFrom p e) = True"
| "is_ValueError JSONDecodeError = True"
| "is_ValueError (KeyError k) = False"
| "is_ValueError (TypeError m) = False"
| "is_ValueError (IndexError m) = False"
| "is_ValueError (LibraryError m) = False"

definition exn_bind :: "exn + 'a \<Rightarrow> ('a \<Rightarrow> exn + 'b) \<Rightarrow> exn + 'b" where
  "exn_bind m f = (case m of Inl e \<Rightarrow> Inl e | Inr x \<Rightarrow> f x)"

text \<open>\<^verbatim>\<open>d[k]\<close> on a dictionary: \<^verbatim>\<open>KeyError\<close> when the key is missing.\<close>

definition getitem :: "pydict \<Rightarrow> string \<Rightarrow> exn + pyval" where
  "getitem d k = (case map_of d k of None \<Rightarrow> Inl (KeyError k) | Some v \<Rightarrow> Inr v)"

text \<open>\<^verbatim>\<open>d.get(k, default)\<close>.\<close>

definition dict_get :: "pydict \<Rightarrow> string \<Rightarrow> pyval \<Rightarrow> pyval" where
  "dict_get d k dflt = (case map_of d k of None \<Rightarrow> dflt | Some v \<Rightarrow> v)"

text \<open>\<^verbatim>\<open>v[k]\<close> with a string key on an arbitrary value: only a dictionary can be indexed so.\<close>

definition py_getitem :: "pyval \<Rightarrow> string \<Rightarrow> exn + pyval" where
  "py_getitem v k =
     (case v of
        PDict d \<Rightarrow> getitem d k
      | PNone \<Rightarrow> Inl (TypeError ''object is not subscriptable'')
      | PBool b \<Rightarrow> Inl (TypeError ''object is not subscriptable'')
      | PInt n \<Rightarrow> Inl (TypeError ''object is not subscriptable'')
      | PFloat q \<Rightarrow> Inl (TypeError ''object is not subscriptable'')
      | PStr s \<Rightarrow> Inl (TypeError ''string indices must be integers'')
      | PBytes s \<Rightarrow> Inl (TypeError ''byte indices must be integers'')
      | PList xs \<Rightarrow> Inl (TypeError ''list indices must be integers or slices''))"

text \<open>Truth value of an object, as \<^verbatim>\<open>not x\<close> and \<^verbatim>\<open>bool(x)\<close> compute it.\<close>

fun truthy :: "pyval \<Rightarrow> bool" where
  "truthy PNone = False"
| "truthy (PBool b) = b"
| "truthy (PInt n) = (n \<noteq> 0)"
| "truthy (PFloat q) = (q \<noteq> 0)"
| "truthy (PStr s) = (s \<noteq> [])"
| "truthy (PBytes s) = (s \<noteq> [])"
| "truthy (PList xs) = (xs \<noteq> [])"
| "truthy (PDict d) = (d \<noteq> [])"

text \<open>\<^verbatim>\<open>v == 0\<close>: the numeric types compare by value, \<^verbatim>\<open>False == 0\<close> holds.\<close>

fun py_eq_zero :: "pyval \<Rightarrow> bool" where
  "py_eq_zero (PBool b) = (\<not> b)"
| "py_eq_zero (PInt n) = (n = 0)"
| "py_eq_zero (PFloat q) = (q = 0)"
| "py_eq_zero v = False"

subsection \<open>Decimal text of an integer, and \<^verbatim>\<open>int(...)\<close>\<close>

definition digit_char :: "nat \<Rightarrow> char" where
  "digit_char d = ''0123456789'' ! d"

fun str_nat :: "nat \<Rightarrow> string" where
  "str_nat n = (if n < 10 then [digit_char n] else str_nat (n div 10) @ [digit_char (n mod 10)])"

declare str_nat.simps [simp del]

definition str_int :: "int \<Rightarrow> string" where
  "str_int i = (if i < 0 then CHR ''-'' # str_nat (nat (- i)) else str_nat (nat i))"

definition is_digit :: "char \<Rightarrow> bool" where
  "is_digit c = (c \<in> set ''0123456789'')"

definition digit_val :: "char \<Rightarrow> nat" where
  "digit_val c = (of_char c :: nat) - 48"

definition is_space :: "char \<Rightarrow> bool" where
  "is_space c = (c \<in> set [CHR '' '', CHR 0x09, CHR 0x0A, CHR 0x0B, CHR 0x0C, CHR 0x0D])"

definition strip :: "string \<Rightarrow> string" where
  "strip s = rev (dropWhile is_space (rev (dropWhile is_space s)))"

text \<open>
  \<^verbatim>\<open>int(s)\<close> on text: white space around the literal is dropped, a sign may come first,
  then decimal digits, with single underscores allowed between digits. \<open>int_of_str\<close> is
  that reading for text made of ASCII characters only, where the white space is the blank
  and the characters 9 to 13 and the digits are \<^verbatim>\<open>0\<close> to \<^verbatim>\<open>9\<close>; \<open>more_digits\<close> reads the
  digits after the first one.
\<close>

fun more_digits :: "nat \<Rightarrow> string \<Rightarrow> nat option" where
  "more_digits acc [] = Some acc"
| "more_digits acc [c] = (if is_digit c then Some (10 * acc + digit_val c) else None)"
| "more_digits acc (c # d # cs) =
     (if is_digit c then more_digits (10 * acc + digit_val c) (d # cs)
      else if c = CHR ''_'' \<and> is_digit d then more_digits (10 * acc + digit_val d) cs
      else None)"

definition nat_of_digits :: "string \<Rightarrow> nat option" where
  "nat_of_digits s =
     (case s of [] \<Rightarrow> None
      | c # cs \<Rightarrow> if is_digit c then more_digits (digit_val c) cs else None)"

definition int_of_str :: "string \<Rightarrow> int option" where
  "int_of_str s =
     (case strip s of
        [] \<Rightarrow> None
      | c # cs \<Rightarrow>
          if c = CHR ''-'' then map_option (\<lambda>n. - int n) (nat_of_digits cs)
          else if c = CHR ''+'' then map_option int (nat_of_digits cs)
          else map_option int (nat_of_digits (c # cs)))"

definition is_ascii :: "string \<Rightarrow> bool" where
  "is_ascii s = list_all (\<lambda>c. (of_char c :: nat) < 128) s"

text \<open>A float is truncated towards zero by \<^verbatim>\<open>int\<close>.\<close>

definition trunc :: "rat \<Rightarrow> int" where
  "trunc q = (if 0 \<le> q then \<lfloor>q\<rfloor> else \<lceil>q\<rceil>)"

text \<open>
  \<^verbatim>\<open>int(v)\<close>. Two readings of a literal are left to the interpreter, as the
  parameter \<open>int_text\<close>, with \<open>None\<close> for a refusal. On text with a character beyond
  ASCII Python consults the Unicode database (further white space such as U+00A0 and U+0085
  is dropped, every decimal digit of every script counts). On text or bytes of more than
  640 characters the interpreter's bound on the digits of a literal
  (\<^verbatim>\<open>sys.set_int_max_str_digits\<close>, 4300 unless configured, and no bound below 640
  can be configured) may refuse what \<open>int_of_str\<close> would read. On bytes only the ASCII reading exists.
\<close>

fun py_int :: "(pyval \<Rightarrow> int option) \<Rightarrow> pyval \<Rightarrow> exn + int" where
  "py_int int_text (PInt n) = Inr n"
| "py_int int_text (PBool b) = Inr (if b then 1 else 0)"
| "py_int int_text (PFloat q) = Inr (trunc q)"
| "py_int int_text (PStr s) =
     (case (if is_ascii s \<and> length s \<le> 640 then int_of_str s else int_text (PStr s)) of
        Some n \<Rightarrow> Inr n
      | None \<Rightarrow> Inl (ValueError ''invalid literal for int() with base 10''))"
| "py_int int_text (PBytes s) =
     (case (if length s \<le> 640 then int_of_str s else int_text (PBytes s)) of
        Some n \<Rightarrow> Inr n
      | None \<Rightarrow> Inl (ValueError ''invalid literal for int() with base 10''))"
| "py_int int_text v =
     Inl (TypeError ''int() argument must be a string, a bytes-like object or a real number'')"

text \<open>
  \<^verbatim>\<open>f"{v:d}"\<close>: the format code \<open>d\<close> is accepted by \<^verbatim>\<open>int\<close> and by its subclass
  \<^verbatim>\<open>bool\<close> only.
\<close>

fun format_d :: "pyval \<Rightarrow> exn + string" where
  "format_d (PInt n) = Inr (str_int n)"
| "format_d (PBool b) = Inr (str_int (if b then 1 else 0))"
| "format_d (PFloat q) = Inl (ValueError ''Unknown format code d for object of type float'')"
| "format_d (PStr s) = Inl (ValueError ''Unknown format code d for object of type str'')"
| "format_d PNone = Inl (TypeError ''unsupported format string passed to NoneType.__format__'')"
| "format_d (PBytes s) = Inl (TypeError ''unsupported format string passed to bytes.__format__'')"
| "format_d (PList xs) = Inl (TypeError ''unsupported format string passed to list.__format__'')"
| "format_d (PDict d) = Inl (TypeError ''unsupported format string passed to dict.__format__'')"

text \<open>The values Python counts as integers: \<^verbatim>\<open>isinstance(v, int)\<close>.\<close>

fun is_int :: "pyval \<Rightarrow> bool" where
  "is_int (PInt n) = True"
| "is_int (PBool b) = True"
| "is_int v = False"

fun int_value :: "pyval \<Rightarrow> int" where
  "int_value (PInt n) = n"
| "int_value (PBool b) = (if b then 1 else 0)"
| "int_value v = 0"

text \<open>\<^verbatim>\<open>xs.index(v)\<close>: position of the first element equal to \<open>v\<close>.\<close>

fun index_of :: "'a list \<Rightarrow> 'a \<Rightarrow> nat option" where
  "index_of [] v = None"
| "index_of (x # xs) v = (if x = v then Some 0 else map_option Suc (index_of xs v))"

text \<open>
  \<^verbatim>\<open>f"{v}"\<close> with no format code is \<^verbatim>\<open>str(v)\<close>. The text of a float, of a byte string
  and of a container goes through \<^verbatim>\<open>repr\<close>, which is a parameter of the development.
\<close>

definition fstr :: "(pyval \<Rightarrow> string) \<Rightarrow> pyval \<Rightarrow> string" where
  "fstr repr v =
     (case v of
        PStr s \<Rightarrow> s
      | PNone \<Rightarrow> ''None''
      | PBool b \<Rightarrow> (if b then ''True'' else ''False'')
      | PInt n \<Rightarrow> str_int n
      | PFloat q \<Rightarrow> repr v
      | PBytes b \<Rightarrow> repr v
      | PList xs \<Rightarrow> repr v
      | PDict d \<Rightarrow> repr v)"

text \<open>\<^verbatim>\<open>filename.split("/")[-1]\<close>: what follows the last slash.\<close>

definition last_component :: "string \<Rightarrow> string" where
  "last_component s = rev (takeWhile (\<lambda>c. c \<noteq> CHR ''/'') (rev s))"

section \<open>The UVOT mode table\<close>

definition modes :: "(string \<times> string) list" where
  "modes =
    [(''0x9999'', ''0x9999 - Default (Filter of the day)''),
     (''0x30ed'', ''0x30ed - U+B+V+All UV''),
     (''0x223f'', ''0x223f - U+B+V+All UV (UV weighted, SN Mode)''),
     (''0x0270'', ''0x0270 - U+B+V+All UV (ToO Upload Mode)''),
     (''0x209a'', ''0x209a - U+B+V''),
     (''0x308f'', ''0x308f - All UV''),
     (''0x2019'', ''0x2019 - White''),
     (''0x018c'', ''0x018c - UVW1''),
     (''0x011e'', ''0x011e - UVW2''),
     (''0x015a'', ''0x015a - UVM2''),
     (''0x01aa'', ''0x01aa - U band''),
     (''0x2016'', ''0x2016 - B band''),
     (''0x2005'', ''0x2005 - V band''),
     (''0x122f'', ''0x122f - Grism 1 (UV)''),
     (''0x1230'', ''0x1230 - Grism 2 (Visible)''),
     (''0x0ff3'', ''0x0ff3 - Blocked (in case of too bright star)'')]"

definition modes_keys :: "string list" where
  "modes_keys = map fst modes"

definition modes_values :: "string list" where
  "modes_values = map snd modes"

section \<open>The platform's records\<close>

record sky_object =
  obj_id :: string
  obj_ra :: pyval
  obj_dec :: pyval
  internal_key :: string

record allocation =
  altdata :: pydict
  instrument_id :: int

record http_request =
  url :: string
  form_data :: pyval
  json_body :: pyval

record http_response =
  status_code :: int
  reason :: string
  resp_text :: string
  content :: string
  sent :: http_request

record facility_transaction =
  tx_request :: pyval
  tx_response :: pyval
  tx_followup_request :: int
  initiator_id :: int

record followup_request =
  request_id :: int
  obj :: sky_object
  allocation :: allocation
  payload :: pydict
  status :: string
  last_modified_by_id :: int
  requester :: int
  accessible_groups :: "int list"
  transactions :: "facility_transaction list"

record comment =
  comment_text :: string
  comment_obj_id :: string
  attachment_bytes :: string
  attachment_name :: string
  author :: int
  groups :: "int list"
  bot :: bool

section \<open>The Swift client library, as far as the adapter uses it\<close>

text \<open>A \<^verbatim>\<open>Swift_TOO\<close> object: every attribute is \<^verbatim>\<open>None\<close> until it is assigned.\<close>

record swift_too =
  username :: pyval
  shared_secret :: pyval
  source_name :: pyval
  ra :: pyval
  dec :: pyval
  source_type :: pyval
  exp_time_per_visit :: pyval
  monitoring_freq :: pyval
  num_of_visits :: pyval
  opt_mag :: pyval
  opt_filt :: pyval
  xrt_countrate :: pyval
  exp_time_just :: pyval
  immediate_objective :: pyval
  urgency :: pyval
  obs_type :: pyval
  uvot_mode :: pyval
  science_just :: pyval
  uvot_just :: pyval

definition Swift_TOO :: swift_too where
  "Swift_TOO =
     \<lparr>username = PNone, shared_secret = PNone, source_name = PNone, ra = PNone, dec = PNone,
      source_type = PNone, exp_time_per_visit = PNone, monitoring_freq = PNone,
      num_of_visits = PNone, opt_mag = PNone, opt_filt = PNone, xrt_countrate = PNone,
      exp_time_just = PNone, immediate_objective = PNone, urgency = PNone, obs_type = PNone,
      uvot_mode = PNone, science_just = PNone, uvot_just = PNone\<rparr>"

text \<open>
  An \<^verbatim>\<open>XRTProductRequest\<close>: the user id, the global parameters, the products asked
  for, and the job-state attributes that \<^verbatim>\<open>get\<close> writes back.
\<close>

record xrt_product_request =
  xrt_user :: pyval
  global_pars :: pydict
  products :: "string list"
  job_status :: int
  job_submitted :: int
  jobID :: pyval
  retData :: pydict

text \<open>An observation query and the rows the archive answers with.\<close>

record obsquery_args =
  q_ra :: pyval
  q_dec :: pyval
  q_radius :: pyval
  q_begin :: pyval
  q_end :: pyval

record obs_row =
  uvot :: pyval
  ra_object :: pyval
  dec_object :: pyval
  obsid :: pyval
  row_begin :: pyval
  exposure_seconds :: pyval
  targname :: pyval

record uvot_entry =
  filter_name :: pyval

record obs_query =
  query :: obsquery_args
  entries :: "obs_row list"

text \<open>
  What lies outside the module: the configuration, the third-party libraries
  (\<^verbatim>\<open>swifttools\<close>, \<^verbatim>\<open>requests\<close>, \<^verbatim>\<open>json\<close>, \<^verbatim>\<open>astropy\<close>), the file system and the
  platform's helpers. Each is a field of one record, so that every theorem below holds for
  whatever they answer. A call that can raise returns a sum; \<open>None\<close> from
  \<open>json_loads\<close> stands for \<^verbatim>\<open>json.JSONDecodeError\<close>, \<open>None\<close> from \<open>UVOT_mode\<close>
  for a mode object whose \<^verbatim>\<open>entries\<close> attribute is \<^verbatim>\<open>None\<close>.
\<close>

record library =
  API_URL :: string
  XRT_URL :: string
  repr :: "pyval \<Rightarrow> string"
  int_text :: "pyval \<Rightarrow> int option"
  json_loads :: "string \<Rightarrow> pyval option"
  post :: "http_request \<Rightarrow> exn + http_response"
  serialize_requests_request :: "http_request \<Rightarrow> pyval"
  serialize_requests_response :: "http_response \<Rightarrow> pyval"
  validate :: "swift_too \<Rightarrow> exn + bool"
  jwt :: "swift_too \<Rightarrow> pyval"
  Time_iso :: "pyval \<Rightarrow> exn + rat"
  iso :: "rat \<Rightarrow> string"
  XRTProductRequest :: "pyval \<Rightarrow> exn option"
  setGlobalPars :: "pyval \<Rightarrow> pydict \<Rightarrow> exn option"
  getJSONDict :: "xrt_product_request \<Rightarrow> pyval"
  complete :: "xrt_product_request \<Rightarrow> exn + bool"
  downloadProducts :: "xrt_product_request \<Rightarrow> exn + (string \<times> string) list"
  read_b64encode :: "string \<Rightarrow> exn + string"
  ObsQuery :: "obsquery_args \<Rightarrow> obs_row list"
  UVOT_mode :: "pyval \<Rightarrow> uvot_entry list option"
  select_groups :: "int \<Rightarrow> int list \<Rightarrow> int list"
  request_notify_by_slack :: "followup_request \<Rightarrow> exn option"
  request_notify_by_email :: "followup_request \<Rightarrow> exn option"

section \<open>Effects\<close>

text \<open>
  Everything a call can change besides the request itself: the objects handed to
  \<^verbatim>\<open>session.add\<close>, the number of commits, the messages pushed on the platform's
  \<^verbatim>\<open>Flow\<close>, the functions handed to the executor of the event loop, the log (each
  line with the exception it interpolates, if any), the notifications sent and the rows given to \<^verbatim>\<open>add_observations\<close>.
  Pushing on the \<^verbatim>\<open>Flow\<close> and writing to the log are taken to return normally.
\<close>

datatype session_object = Transaction facility_transaction | Comment comment

datatype flow_message =
    REFRESH_SOURCE string
  | REFRESH_FOLLOWUP_REQUESTS int
  | SHOW_NOTIFICATION int string

datatype task =
    fetch_obs int rat rat
  | download_obs int obs_query

record world =
  session_added :: "session_object list"
  commits :: nat
  flow_pushed :: "flow_message list"
  run_in_executor :: "task list"
  logged :: "(string \<times> exn option) list"
  notified :: "string list"
  observation_store :: "(int \<times> pydict) list"

text \<open>
  The outcome of a handler: the exception that left it, if any, with the request and the
  world as they are at that moment.
\<close>

type_synonym outcome = "exn option \<times> followup_request \<times> world"

section \<open>\<^verbatim>\<open>UVOTXRTMMAAPI.retrieve\<close> and \<^verbatim>\<open>fetch_observations\<close>\<close>

text \<open>
  A \<^verbatim>\<open>datetime\<close> is the number of microseconds since 1970-01-01 00:00:00; the
  \<^verbatim>\<open>astropy\<close> time made from it is its Julian date. Both are exact here, where
  \<^verbatim>\<open>astropy\<close> keeps two floats.
\<close>

type_synonym datetime = int

definition Time_datetime :: "datetime \<Rightarrow> rat" where
  "Time_datetime d = 4881175 / 2 + of_int d / 86400000000"

definition retrieve :: "allocation \<Rightarrow> datetime \<Rightarrow> datetime \<Rightarrow> world \<Rightarrow> exn option \<times> world" where
  "retrieve alloc start_date end_date w =
     (if \<not> truthy (PDict (altdata alloc)) then
        (Some (ValueError ''Missing allocation information.''), w)
      else
        let request_start = Time_datetime start_date;
            request_end = Time_datetime end_date
        in if request_start > request_end then
             (Some (ValueError ''start_date must be before end_date.''), w)
           else
             (None, w\<lparr>run_in_executor := run_in_executor w @
                        [fetch_obs (instrument_id alloc) request_start request_end]\<rparr>))"

text \<open>The dictionary built for one archive row (lines 126--138).\<close>

definition observation :: "library \<Rightarrow> obs_row \<Rightarrow> uvot_entry \<Rightarrow> int \<Rightarrow> pydict" where
  "observation lib row entry observation_id =
     [(''observation_id'', PInt observation_id),
      (''obstime'', row_begin row),
      (''RA'', ra_object row),
      (''Dec'', dec_object row),
      (''seeing'', PNone),
      (''limmag'', PNone),
      (''exposure_time'', exposure_seconds row),
      (''filter'', PStr (''uvot::'' @ fstr (repr lib) (filter_name entry))),
      (''processed_fraction'', PFloat 1),
      (''target_name'', targname row)]"

text \<open>
  The body of the loop over the rows of the query (lines 118--138): \<open>Inr None\<close> is
  \<^verbatim>\<open>continue\<close>. \<^verbatim>\<open>mode.entries[0]\<close> raises on an empty list and
  \<^verbatim>\<open>int(row.obsid)\<close> on an identifier that is not a number.
\<close>

definition row_observation :: "library \<Rightarrow> obs_row \<Rightarrow> exn + pydict option" where
  "row_observation lib row =
     (case UVOT_mode lib (uvot row) of
        None \<Rightarrow> Inr None
      | Some mode_entries \<Rightarrow>
          if ra_object row = PNone \<or> dec_object row = PNone then Inr None
          else
            (case mode_entries of
               [] \<Rightarrow> Inl (IndexError ''list index out of range'')
             | entry # _ \<Rightarrow>
                 exn_bind (py_int (int_text lib) (obsid row)) (\<lambda>observation_id.
                 Inr (Some (observation lib row entry observation_id)))))"

text \<open>The loop (lines 116--140): the rows are taken in order, the first exception ends it.\<close>

fun observations :: "library \<Rightarrow> obs_row list \<Rightarrow> exn + pydict list" where
  "observations lib [] = Inr []"
| "observations lib (row # rows) =
     exn_bind (row_observation lib row) (\<lambda>ob.
     exn_bind (observations lib rows) (\<lambda>rest.
     Inr (case ob of None \<Rightarrow> rest | Some d \<Rightarrow> d # rest)))"

text \<open>
  Modelled from the spec: \<^verbatim>\<open>add_observations\<close> lives in
  \<^verbatim>\<open>skyportal.handlers.api.observation\<close>, which is not part of the sources; following
  section 4.4 of the specification it inserts every row of the table into the observation
  store of the instrument.
\<close>

definition add_observations :: "int \<Rightarrow> pydict list \<Rightarrow> world \<Rightarrow> world" where
  "add_observations instrument obstable w =
     w\<lparr>observation_store := observation_store w @ map (\<lambda>row. (instrument, row)) obstable\<rparr>"

definition window_query :: "library \<Rightarrow> rat \<Rightarrow> rat \<Rightarrow> obsquery_args" where
  "window_query lib request_start request_end =
     \<lparr>q_ra = PNone, q_dec = PNone, q_radius = PNone,
      q_begin = PStr (iso lib request_start), q_end = PStr (iso lib request_end)\<rparr>"

definition fetch_observations :: "library \<Rightarrow> int \<Rightarrow> rat \<Rightarrow> rat \<Rightarrow> world \<Rightarrow> exn option \<times> world" where
  "fetch_observations lib instrument request_start request_end w =
     (let oq = ObsQuery lib (window_query lib request_start request_end)
      in case observations lib oq of
           Inl e \<Rightarrow> (Some e, w)
         | Inr obstable \<Rightarrow> (None, add_observations instrument obstable w))"

text \<open>The rows the loop skips with \<^verbatim>\<open>continue\<close>.\<close>

definition dropped :: "library \<Rightarrow> obs_row \<Rightarrow> bool" where
  "dropped lib row =
     (UVOT_mode lib (uvot row) = None \<or> ra_object row = PNone \<or> dec_object row = PNone)"

section \<open>The request builders\<close>

subsection \<open>\<^verbatim>\<open>UVOTXRTRequest._build_payload\<close>\<close>

text \<open>
  The body is straight-line code; it is cut in three at the places where the claims look at
  it. Lines 177--196: credentials, target and the fields copied or converted one by one.
\<close>

definition basic_fields :: "library \<Rightarrow> followup_request \<Rightarrow> exn + swift_too" where
  "basic_fields lib request =
     (let altdata = altdata (allocation request); too = Swift_TOO in
      exn_bind (getitem altdata ''username'') (\<lambda>username_v.
      exn_bind (getitem altdata ''secret'') (\<lambda>secret_v.
      exn_bind (getitem (payload request) ''source_type'') (\<lambda>source_type_v.
      exn_bind (getitem (payload request) ''exposure_time'') (\<lambda>exposure_time_v.
      exn_bind (getitem (payload request) ''monitoring_freq'') (\<lambda>monitoring_freq_v.
      exn_bind (format_d monitoring_freq_v) (\<lambda>days.
      exn_bind (getitem (payload request) ''exposure_counts'') (\<lambda>exposure_counts_v.
      exn_bind (py_int (int_text lib) exposure_counts_v) (\<lambda>visits.
      exn_bind (getitem (payload request) ''exp_time_just'') (\<lambda>exp_time_just_v.
      exn_bind (getitem (payload request) ''immediate_objective'') (\<lambda>immediate_objective_v.
      Inr (too\<lparr>username := username_v,
               shared_secret := secret_v,
               source_name := PStr (obj_id (obj request)),
               ra := obj_ra (obj request),
               dec := obj_dec (obj request),
               source_type := source_type_v,
               exp_time_per_visit := exposure_time_v,
               monitoring_freq := PStr (days @ '' days''),
               num_of_visits := PInt visits,
               opt_mag := dict_get (payload request) ''opt_mag'' PNone,
               opt_filt := dict_get (payload request) ''opt_filt'' PNone,
               xrt_countrate := dict_get (payload request) ''xrt_countrate'' PNone,
               exp_time_just := exp_time_just_v,
               immediate_objective := immediate_objective_v\<rparr>))))))))))))"

text \<open>
  Lines 198--213: the urgency, converted inside \<^verbatim>\<open>try\<close> (\<open>converted_urgency\<close> is
  the expression \<^verbatim>\<open>int(request.payload["urgency"])\<close>; whatever the conversion or the
  lookup raises is turned into a \<^verbatim>\<open>ValueError\<close>) and checked against 0..4, then the
  observation type.
\<close>

definition obs_types :: "pyval list" where
  "obs_types = [PStr ''Spectroscopy'', PStr ''Light Curve'', PStr ''Position'', PStr ''Timing'']"

definition converted_urgency :: "library \<Rightarrow> followup_request \<Rightarrow> exn + int" where
  "converted_urgency lib request =
     exn_bind (getitem (payload request) ''urgency'') (py_int (int_text lib))"

definition urgency_and_obs_type ::
  "library \<Rightarrow> followup_request \<Rightarrow> swift_too \<Rightarrow> exn + swift_too" where
  "urgency_and_obs_type lib request too =
     (case converted_urgency lib request of
        Inl e \<Rightarrow> Inl (ValueErrorFrom ''Could not convert urgency to a valid integer: '' e)
      | Inr u \<Rightarrow>
          if u < 0 \<or> u > 4 then
            Inl (ValueError (''urgency must be one of 0, 1, 2, 3, or 4, and not: '' @ str_int u))
          else
            exn_bind (getitem (payload request) ''obs_type'') (\<lambda>obs_type_v.
            if obs_type_v \<notin> set obs_types then Inl (ValueError ''obs_type not an allowed value.'')
            else Inr (too\<lparr>urgency := PInt u, obs_type := obs_type_v\<rparr>)))"

text \<open>
  Lines 215--225: the mode label is looked up in the table with \<^verbatim>\<open>tuple.index\<close>, and a
  justification is demanded for every mode but \<^verbatim>\<open>0x9999\<close>.
\<close>

definition uvot_fields :: "followup_request \<Rightarrow> swift_too \<Rightarrow> exn + swift_too" where
  "uvot_fields request too =
     exn_bind (getitem (payload request) ''uvot_mode'') (\<lambda>uvot_mode_v.
     case index_of (map PStr modes_values) uvot_mode_v of
       None \<Rightarrow> Inl (ValueError ''tuple.index(x): x not in tuple'')
     | Some modes_index \<Rightarrow>
         exn_bind (getitem (payload request) ''science_just'') (\<lambda>science_just_v.
         let too = too\<lparr>uvot_mode := PStr (modes_keys ! modes_index),
                       science_just := science_just_v\<rparr>
         in if uvot_mode too \<noteq> PStr ''0x9999'' then
              let too = too\<lparr>uvot_just := dict_get (payload request) ''uvot_just'' PNone\<rparr>
              in if \<not> truthy (uvot_just too) then
                   Inl (ValueError
                     ''uvot_just is required when the UVOT mode select is 0x0270 (ToO Upload Mode).'')
                 else Inr too
            else Inr too))"

definition UVOTXRTRequest :: "library \<Rightarrow> followup_request \<Rightarrow> exn + swift_too" where
  "UVOTXRTRequest lib request =
     exn_bind (basic_fields lib request) (\<lambda>too.
     exn_bind (urgency_and_obs_type lib request too) (\<lambda>too.
     uvot_fields request too))"

subsection \<open>\<^verbatim>\<open>XRTAPIRequest._build_payload\<close>\<close>

text \<open>
  The reference epoch \<^verbatim>\<open>2001-01-01 00:00:00\<close> as a Julian date. The difference to it is
  taken in exact arithmetic, where the code has floats. The constructor of the library's
  request object and its \<^verbatim>\<open>setGlobalPars\<close> check what they are given and can raise; the
  five \<^verbatim>\<open>add...\<close> calls with their constant arguments are recorded as the list of
  products.
\<close>

definition MET :: rat where
  "MET = 4903821 / 2"

definition xrt_products :: "string list" where
  "xrt_products = [''LightCurve'', ''Spectrum'', ''StandardPos'', ''EnhancedPos'', ''AstromPos'']"

definition XRTAPIRequest :: "library \<Rightarrow> followup_request \<Rightarrow> exn + xrt_product_request" where
  "XRTAPIRequest lib request =
     (let altdata = altdata (allocation request) in
      exn_bind (getitem (payload request) ''T0'') (\<lambda>T0_v.
      exn_bind (Time_iso lib T0_v) (\<lambda>T0.
      let Tdiff = (T0 - MET) * 86400;
          centroid = truthy (dict_get (payload request) ''detornot'' (PBool False))
      in
      exn_bind (getitem altdata ''XRT_UserID'') (\<lambda>user.
      exn_bind (case XRTProductRequest lib user of Some e \<Rightarrow> Inl e | None \<Rightarrow> Inr user) (\<lambda>myReq.
      exn_bind (getitem (payload request) ''centMeth'') (\<lambda>centMeth.
      exn_bind (getitem (payload request) ''detMeth'') (\<lambda>detMeth.
      exn_bind (getitem (payload request) ''poserr'') (\<lambda>poserr.
      let pars = [(''getTargs'', PBool True),
                  (''centroid'', PBool centroid),
                  (''name'', PStr (obj_id (obj request))),
                  (''RA'', obj_ra (obj request)),
                  (''Dec'', obj_dec (obj request)),
                  (''centMeth'', centMeth),
                  (''detMeth'', detMeth),
                  (''useSXPS'', PBool False),
                  (''T0'', PFloat Tdiff),
                  (''posErr'', poserr)]
      in case setGlobalPars lib user pars of
           Some e \<Rightarrow> Inl e
         | None \<Rightarrow>
             Inr \<lparr>xrt_user = user, global_pars = pars, products = xrt_products,
                  job_status = 0, job_submitted = 0, jobID = PNone, retData = []\<rparr>))))))))"

subsection \<open>\<^verbatim>\<open>UVOTXRTBATDataRequest._build_payload\<close>\<close>

definition UVOTXRTBATDataRequest :: "library \<Rightarrow> followup_request \<Rightarrow> exn + obs_query" where
  "UVOTXRTBATDataRequest lib request =
     exn_bind (getitem (payload request) ''start_date'') (\<lambda>start_date.
     exn_bind (getitem (payload request) ''end_date'') (\<lambda>end_date.
     let args = \<lparr>q_ra = obj_ra (obj request), q_dec = obj_dec (obj request),
                 q_radius = PFloat (5 / 60), q_begin = start_date, q_end = end_date\<rparr>
     in Inr \<lparr>query = args, entries = ObsQuery lib args\<rparr>))"

section \<open>\<^verbatim>\<open>UVOTXRTAPI\<close>\<close>

text \<open>The two optional refresh signals that end both \<^verbatim>\<open>get\<close> and \<^verbatim>\<open>submit\<close>.\<close>

definition refresh :: "pydict \<Rightarrow> followup_request \<Rightarrow> world \<Rightarrow> world" where
  "refresh kwargs request w =
     (let w1 = (if truthy (dict_get kwargs ''refresh_source'' (PBool False))
                then w\<lparr>flow_pushed := flow_pushed w @ [REFRESH_SOURCE (internal_key (obj request))]\<rparr>
                else w)
      in if truthy (dict_get kwargs ''refresh_requests'' (PBool False))
         then w1\<lparr>flow_pushed := flow_pushed w1 @
                    [REFRESH_FOLLOWUP_REQUESTS (last_modified_by_id request)]\<rparr>
         else w1)"

text \<open>\<^verbatim>\<open>json.loads\<close> takes text or bytes.\<close>

definition loads :: "library \<Rightarrow> pyval \<Rightarrow> exn + pyval" where
  "loads lib v =
     (case v of
        PStr s \<Rightarrow> (case json_loads lib s of None \<Rightarrow> Inl JSONDecodeError | Some j \<Rightarrow> Inr j)
      | PBytes s \<Rightarrow> (case json_loads lib s of None \<Rightarrow> Inl JSONDecodeError | Some j \<Rightarrow> Inr j)
      | PNone \<Rightarrow> Inl (TypeError ''the JSON object must be str, bytes or bytearray'')
      | PBool b \<Rightarrow> Inl (TypeError ''the JSON object must be str, bytes or bytearray'')
      | PInt n \<Rightarrow> Inl (TypeError ''the JSON object must be str, bytes or bytearray'')
      | PFloat q \<Rightarrow> Inl (TypeError ''the JSON object must be str, bytes or bytearray'')
      | PList xs \<Rightarrow> Inl (TypeError ''the JSON object must be str, bytes or bytearray'')
      | PDict d \<Rightarrow> Inl (TypeError ''the JSON object must be str, bytes or bytearray''))"

text \<open>\<^verbatim>\<open>d[k] = v\<close>.\<close>

fun setitem :: "pydict \<Rightarrow> string \<Rightarrow> pyval \<Rightarrow> pydict" where
  "setitem [] k v = [(k, v)]"
| "setitem ((k', v') # d) k v = (if k' = k then (k, v) # d else (k', v') # setitem d k v)"

subsection \<open>\<^verbatim>\<open>get\<close>\<close>

text \<open>
  Lines 439--447: the job state is read back from the response stored with the last
  transaction of the request and written into a freshly built request object.
\<close>

definition job_state :: "library \<Rightarrow> followup_request \<Rightarrow> exn + xrt_product_request" where
  "job_state lib request =
     (case transactions request of
        [] \<Rightarrow> Inl (IndexError ''list index out of range'')
      | t # ts \<Rightarrow>
          exn_bind (py_getitem (tx_response (last (t # ts))) ''content'') (\<lambda>content_v.
          exn_bind (loads lib content_v) (\<lambda>content_d.
          exn_bind (XRTAPIRequest lib request) (\<lambda>swiftreq.
          exn_bind (py_getitem content_d ''OK'') (\<lambda>ok.
          exn_bind (py_int (int_text lib) ok) (\<lambda>submitted.
          exn_bind (py_getitem content_d ''JobID'') (\<lambda>job.
          exn_bind (py_getitem content_d ''URL'') (\<lambda>url_v.
          exn_bind (py_getitem content_d ''jobPars'') (\<lambda>jobPars.
          Inr (swiftreq\<lparr>job_status := 1, job_submitted := submitted, jobID := job,
                 retData := setitem (setitem (retData swiftreq) ''URL'' url_v)
                              ''jobPars'' jobPars\<rparr>))))))))))"

text \<open>Lines 458--472: one comment for each downloaded product.\<close>

fun add_comments ::
  "library \<Rightarrow> followup_request \<Rightarrow> int list \<Rightarrow> (string \<times> string) list \<Rightarrow> world \<Rightarrow> exn option \<times> world"
where
  "add_comments lib request gs [] w = (None, w)"
| "add_comments lib request gs ((key, filename) # retDict) w =
     (case read_b64encode lib filename of
        Inl e \<Rightarrow> (Some e, w)
      | Inr bytes \<Rightarrow>
          add_comments lib request gs retDict
            (w\<lparr>session_added := session_added w @
                 [Comment \<lparr>comment_text = ''Swift XRT: '' @ key,
                            comment_obj_id = obj_id (obj request),
                            attachment_bytes = bytes,
                            attachment_name = last_component filename,
                            author = requester request,
                            groups = gs,
                            bot = False\<rparr>]\<rparr>))"

text \<open>
  Lines 427--484. The row that \<^verbatim>\<open>session.query(...).one()\<close> loads is the request itself.
\<close>

definition get_result :: "library \<Rightarrow> followup_request \<Rightarrow> world \<Rightarrow> outcome" where
  "get_result lib request w =
     (if \<not> truthy (PDict (altdata (allocation request))) then
        (Some (ValueError ''Missing allocation information.''), request, w)
      else
        case getitem (payload request) ''request_type'' of
          Inl e \<Rightarrow> (Some e, request, w)
        | Inr request_type \<Rightarrow>
            if request_type = PStr ''XRT API'' then
              (case job_state lib request of
                 Inl e \<Rightarrow> (Some e, request, w)
               | Inr swiftreq \<Rightarrow>
                   (case complete lib swiftreq of
                      Inl e \<Rightarrow> (Some e, request, w)
                    | Inr done \<Rightarrow>
                        if \<not> done then
                          (Some (ValueError ''Result not yet available. Please try again later.''),
                           request, w)
                        else
                          let gs = select_groups lib (requester request) (accessible_groups request)
                          in case downloadProducts lib swiftreq of
                               Inl e \<Rightarrow> (Some e, request, w)
                             | Inr retDict \<Rightarrow>
                                 (case add_comments lib request gs retDict w of
                                    (Some e, w') \<Rightarrow> (Some e, request, w')
                                  | (None, w') \<Rightarrow>
                                      (None, request\<lparr>status := ''Result posted as comment''\<rparr>,
                                       w'\<lparr>commits := Suc (commits w')\<rparr>))))
            else if request_type = PStr ''XRT/UVOT/BAT Data'' then
              (case UVOTXRTBATDataRequest lib request of
                 Inl e \<Rightarrow> (Some e, request, w)
               | Inr oq \<Rightarrow>
                   (None, request,
                    w\<lparr>run_in_executor := run_in_executor w @ [download_obs (request_id request) oq]\<rparr>))
            else (None, request, w))"

text \<open>Lines 486--498 run when nothing was raised above.\<close>

definition get :: "library \<Rightarrow> pydict \<Rightarrow> followup_request \<Rightarrow> world \<Rightarrow> outcome" where
  "get lib kwargs request w =
     (case get_result lib request w of
        (Some e, request', w') \<Rightarrow> (Some e, request', w')
      | (None, request', w') \<Rightarrow> (None, request', refresh kwargs request' w'))"

subsection \<open>\<^verbatim>\<open>submit\<close>\<close>

text \<open>Lines 547--554 and 570--577: the record of one HTTP exchange.\<close>

definition FacilityTransaction :: "library \<Rightarrow> followup_request \<Rightarrow> http_response \<Rightarrow> facility_transaction" where
  "FacilityTransaction lib request r =
     \<lparr>tx_request = serialize_requests_request lib (sent r),
      tx_response = serialize_requests_response lib r,
      tx_followup_request = request_id request,
      initiator_id = last_modified_by_id request\<rparr>"

definition session_add :: "session_object \<Rightarrow> world \<Rightarrow> world" where
  "session_add x w = w\<lparr>session_added := session_added w @ [x]\<rparr>"

text \<open>Lines 520--554, the branch for \<^verbatim>\<open>XRT/UVOT ToO\<close>.\<close>

definition submit_too :: "library \<Rightarrow> followup_request \<Rightarrow> world \<Rightarrow> outcome" where
  "submit_too lib request w =
     (case UVOTXRTRequest lib request of
        Inl e \<Rightarrow> (Some e, request, w)
      | Inr too \<Rightarrow>
          (case validate lib too of
             Inl e \<Rightarrow> (Some e, request, w)
           | Inr checked \<Rightarrow>
               (case post lib \<lparr>url = API_URL lib, form_data = PDict [(''jwt'', jwt lib too)],
                              json_body = PNone\<rparr> of
                  Inl e \<Rightarrow> (Some e, request, w)
                | Inr r \<Rightarrow>
                    if status_code r = 200 then
                      (None, request\<lparr>status := ''submitted''\<rparr>,
                       session_add (Transaction
                         (FacilityTransaction lib (request\<lparr>status := ''submitted''\<rparr>) r)) w)
                    else
                      let body = repr lib (PBytes (content r));
                          request' = request\<lparr>status := ''rejected: '' @ body\<rparr>;
                          w1 = w\<lparr>logged := logged w @
                                  [(''Failed to submit Swift request for ''
                                      @ str_int (request_id request) @ '' (obj ''
                                      @ obj_id (obj request) @ ''): '' @ body, None)]\<rparr>;
                          w2 = w1\<lparr>flow_pushed := flow_pushed w1 @
                                   [SHOW_NOTIFICATION (last_modified_by_id request)
                                      (''Failed to submit Swift request: '' @ body)]\<rparr>
                      in (None, request',
                          session_add (Transaction (FacilityTransaction lib request' r)) w2))))"

text \<open>
  Lines 557--577, the branch for \<^verbatim>\<open>XRT API\<close>. The body of the response is decoded
  before the status code is looked at.
\<close>

definition submit_xrt :: "library \<Rightarrow> followup_request \<Rightarrow> world \<Rightarrow> outcome" where
  "submit_xrt lib request w =
     (case XRTAPIRequest lib request of
        Inl e \<Rightarrow> (Some e, request, w)
      | Inr swiftreq \<Rightarrow>
          (case post lib \<lparr>url = XRT_URL lib, form_data = PNone,
                         json_body = getJSONDict lib swiftreq\<rparr> of
             Inl e \<Rightarrow> (Some e, request, w)
           | Inr r \<Rightarrow>
               (case loads lib (PStr (resp_text r)) of
                  Inl e \<Rightarrow> (Some e, request, w)
                | Inr returnedData \<Rightarrow>
                    (case
                       (if status_code r \<noteq> 200 then Inr (''rejected: '' @ reason r)
                        else
                          exn_bind (py_getitem returnedData ''OK'') (\<lambda>ok.
                          if py_eq_zero ok then
                            exn_bind (py_getitem returnedData ''ERROR'') (\<lambda>err.
                            exn_bind (py_getitem returnedData ''listErr'') (\<lambda>listErr.
                            Inr (''rejected: ('' @ repr lib err @ '', '' @ repr lib listErr @ '')'')))
                          else Inr ''submitted''))
                     of
                       Inl e \<Rightarrow> (Some e, request, w)
                     | Inr new_status \<Rightarrow>
                         (None, request\<lparr>status := new_status\<rparr>,
                          session_add (Transaction
                            (FacilityTransaction lib (request\<lparr>status := new_status\<rparr>) r)) w)))))"

text \<open>Lines 579--581, the branch for \<^verbatim>\<open>XRT/UVOT/BAT Data\<close>.\<close>

definition submit_data :: "library \<Rightarrow> followup_request \<Rightarrow> world \<Rightarrow> outcome" where
  "submit_data lib request w =
     (case UVOTXRTBATDataRequest lib request of
        Inl e \<Rightarrow> (Some e, request, w)
      | Inr oq \<Rightarrow>
          (None,
           request\<lparr>status := ''Number of observations: '' @ str_nat (length (entries oq))\<rparr>,
           w))"

text \<open>Lines 515--583: the credentials check and the dispatch on the request type.\<close>

definition submit_request :: "library \<Rightarrow> followup_request \<Rightarrow> world \<Rightarrow> outcome" where
  "submit_request lib request w =
     (if \<not> truthy (PDict (altdata (allocation request))) then
        (Some (ValueError ''Missing allocation information.''), request, w)
      else
        case getitem (payload request) ''request_type'' of
          Inl e \<Rightarrow> (Some e, request, w)
        | Inr request_type \<Rightarrow>
            if request_type = PStr ''XRT/UVOT ToO'' then submit_too lib request w
            else if request_type = PStr ''XRT API'' then submit_xrt lib request w
            else if request_type = PStr ''XRT/UVOT/BAT Data'' then submit_data lib request w
            else (Some (ValueError ''Invalid request type.''), request, w))"

text \<open>
  Lines 599--621: the notification chosen by the allocation; whatever it raises is logged
  and goes no further.
\<close>

definition notify :: "library \<Rightarrow> followup_request \<Rightarrow> world \<Rightarrow> world" where
  "notify lib request w =
     (let notification_type =
            dict_get (altdata (allocation request)) ''notification_type'' (PStr ''none'')
      in if notification_type = PStr ''slack'' then
           (case request_notify_by_slack lib request of
              None \<Rightarrow> w\<lparr>notified := notified w @ [''slack'']\<rparr>
            | Some e \<Rightarrow> w\<lparr>logged := logged w @ [(''Error sending notification: '', Some e)]\<rparr>)
         else if notification_type = PStr ''email'' then
           (case request_notify_by_email lib request of
              None \<Rightarrow> w\<lparr>notified := notified w @ [''email'']\<rparr>
            | Some e \<Rightarrow> w\<lparr>logged := logged w @ [(''Error sending notification: '', Some e)]\<rparr>)
         else w)"

text \<open>Lines 585--621 run when nothing was raised above.\<close>

definition after_submit :: "library \<Rightarrow> pydict \<Rightarrow> outcome \<Rightarrow> outcome" where
  "after_submit lib kwargs out =
     (case out of
        (Some e, request', w') \<Rightarrow> (Some e, request', w')
      | (None, request', w') \<Rightarrow> (None, request', notify lib request' (refresh kwargs request' w')))"

definition submit :: "library \<Rightarrow> pydict \<Rightarrow> followup_request \<Rightarrow> world \<Rightarrow> outcome" where
  "submit lib kwargs request w = after_submit lib kwargs (submit_request lib request w)"

section \<open>Concrete requests and answers\<close>

definition empty_world :: world where
  "empty_world =
     \<lparr>session_added = [], commits = 0, flow_pushed = [], run_in_executor = [], logged = [],
      notified = [], observation_store = []\<rparr>"

definition swift_allocation :: allocation where
  "swift_allocation =
     \<lparr>altdata = [(''username'', PStr ''observer''), (''secret'', PStr ''s3cret''),
                 (''XRT_UserID'', PStr ''observer@example.org'')],
      instrument_id = 7\<rparr>"

text \<open>
  Three bodies the XRT endpoint can answer with: a job that was accepted, a job that was
  refused, and the error page of a web server, which is not JSON.
\<close>

definition accepted_body :: string where
  \<open>accepted_body =
     ''{"OK": 1, "JobID": 42, "URL": "https://www.swift.ac.uk/user_objects/tprods/USERPROD_42", "jobPars": {}}''\<close>

definition refused_body :: string where
  \<open>refused_body = ''{"OK": 0, "ERROR": "Invalid parameters", "listErr": ["T0"]}''\<close>

definition error_page :: string where
  \<open>error_page = ''<html><body><h1>502 Bad Gateway</h1></body></html>''\<close>

definition answer :: "int \<Rightarrow> string \<Rightarrow> string \<Rightarrow> http_request \<Rightarrow> exn + http_response" where
  "answer code why body q =
     Inr \<lparr>status_code = code, reason = why, resp_text = body, content = body, sent = q\<rparr>"

text \<open>
  A library for the examples. Its \<open>json_loads\<close> decodes the two JSON bodies above and
  refuses the error page; its \<open>repr\<close> puts a string between brackets; of the text
  beyond ASCII its \<open>int_text\<close> knows the digit 3 after a no-break space.
\<close>

definition swift_library :: library where
  "swift_library =
     \<lparr>API_URL = ''https://www.swift.psu.edu:443/toop/submit_api.php'',
      XRT_URL = ''https://www.swift.ac.uk/user_objects/run_userobject.php'',
      repr = (\<lambda>v. case v of PStr s \<Rightarrow> ''<'' @ s @ ''>'' | PBytes s \<Rightarrow> ''b<'' @ s @ ''>''
                 | _ \<Rightarrow> ''<object>''),
      int_text = (\<lambda>v. if v = PStr [CHR 0xA0, CHR ''3''] then Some 3 else None),
      json_loads = (\<lambda>s.
        if s = accepted_body then
          Some (PDict [(''OK'', PInt 1), (''JobID'', PInt 42),
                       (''URL'', PStr ''https://www.swift.ac.uk/user_objects/tprods/USERPROD_42''),
                       (''jobPars'', PDict [])])
        else if s = refused_body then
          Some (PDict [(''OK'', PInt 0), (''ERROR'', PStr ''Invalid parameters''),
                       (''listErr'', PList [PStr ''T0''])])
        else None),
      post = answer 200 ''OK'' accepted_body,
      serialize_requests_request = (\<lambda>q. PDict [(''url'', PStr (url q))]),
      serialize_requests_response = (\<lambda>r.
        PDict [(''status_code'', PInt (status_code r)), (''content'', PStr (resp_text r))]),
      validate = (\<lambda>too. Inr True),
      jwt = (\<lambda>too. PStr ''token''),
      Time_iso = (\<lambda>v. Inr 2460000),
      iso = (\<lambda>t. ''2023-02-24 12:00:00.000''),
      XRTProductRequest = (\<lambda>u. None),
      setGlobalPars = (\<lambda>u pars. None),
      getJSONDict = (\<lambda>x. PDict (global_pars x)),
      complete = (\<lambda>x. Inr False),
      downloadProducts = (\<lambda>x. Inr []),
      read_b64encode = (\<lambda>f. Inr []),
      ObsQuery = (\<lambda>q. []),
      UVOT_mode = (\<lambda>v.
        if v = PStr ''0x30ed'' then Some [\<lparr>filter_name = PStr ''u''\<rparr>, \<lparr>filter_name = PStr ''b''\<rparr>]
        else None),
      select_groups = (\<lambda>u gs. gs),
      request_notify_by_slack = (\<lambda>r. None),
      request_notify_by_email = (\<lambda>r. None)\<rparr>"

definition too_request :: followup_request where
  "too_request =
     \<lparr>request_id = 11,
      obj = \<lparr>obj_id = ''ZTF24aaaaaaa'', obj_ra = PFloat (2469 / 20), obj_dec = PFloat (- 5),
             internal_key = ''a1b2c3''\<rparr>,
      allocation = swift_allocation,
      payload =
        [(''request_type'', PStr ''XRT/UVOT ToO''),
         (''exposure_time'', PFloat 4000),
         (''exposure_counts'', PInt 1),
         (''monitoring_freq'', PInt 1),
         (''xrt_countrate'', PFloat (1 / 400)),
         (''urgency'', PStr ''3''),
         (''obs_type'', PStr ''Light Curve''),
         (''source_type'', PStr ''Optical fast transient''),
         (''exp_time_just'', PStr ''4ks should suffice''),
         (''immediate_objective'', PStr ''measure the X-ray emission''),
         (''uvot_mode'', PStr ''0x9999 - Default (Filter of the day)''),
         (''science_just'', PStr ''associate the transient with a relativistic explosion'')],
      status = ''pending'',
      last_modified_by_id = 3,
      requester = 3,
      accessible_groups = [1],
      transactions = []\<rparr>"

text \<open>The same request with one more field in its payload, in front of the others.\<close>

definition with_field :: "string \<Rightarrow> pyval \<Rightarrow> followup_request \<Rightarrow> followup_request" where
  "with_field k v request = request\<lparr>payload := (k, v) # payload request\<rparr>"

text \<open>The same request without a field of its payload.\<close>

definition without_field :: "string \<Rightarrow> followup_request \<Rightarrow> followup_request" where
  "without_field k request = request\<lparr>payload := filter (\<lambda>p. fst p \<noteq> k) (payload request)\<rparr>"

definition uv_request :: followup_request where
  "uv_request = with_field ''uvot_mode'' (PStr ''0x30ed - U+B+V+All UV'') too_request"

definition xrt_request :: followup_request where
  "xrt_request =
     too_request
       \<lparr>payload :=
          [(''request_type'', PStr ''XRT API''),
           (''detornot'', PBool True),
           (''centMeth'', PStr ''simple''),
           (''detMeth'', PStr ''simple''),
           (''T0'', PStr ''2024-01-02 03:04:05''),
           (''poserr'', PInt 1),
           (''binMeth'', PStr ''counts'')],
        transactions :=
          [\<lparr>tx_request =
              PDict [(''url'', PStr ''https://www.swift.ac.uk/user_objects/run_userobject.php'')],
            tx_response = PDict [(''status_code'', PInt 200), (''content'', PStr accepted_body)],
            tx_followup_request = 11,
            initiator_id = 3\<rparr>]\<rparr>"

definition data_request :: followup_request where
  "data_request =
     too_request
       \<lparr>payload :=
          [(''request_type'', PStr ''XRT/UVOT/BAT Data''),
           (''start_date'', PStr ''2023-01-02 03:04:05''),
           (''end_date'', PStr ''2024-01-02 03:04:05''),
           (''XRT'', PBool True)]\<rparr>"

definition gateway_library :: library where
  "gateway_library = swift_library\<lparr>post := answer 502 ''Bad Gateway'' error_page\<rparr>"

definition archive_row :: obs_row where
  "archive_row =
     \<lparr>uvot = PStr ''0x30ed'', ra_object = PFloat (2469 / 20), dec_object = PFloat (- 5),
      obsid = PStr ''00012345001'', row_begin = PStr ''2024-01-02 03:04:05'',
      exposure_seconds = PInt 1200, targname = PStr ''GRB 240101A''\<rparr>"

definition backfill_library :: library where
  "backfill_library = swift_library\<lparr>ObsQuery := (\<lambda>q. [archive_row\<lparr>ra_object := PNone\<rparr>, archive_row])\<rparr>"

section \<open>Basic facts\<close>

lemma exn_bind_Inl [simp]: "exn_bind (Inl e) f = Inl e"
  by (simp add: exn_bind_def)

lemma exn_bind_Inr [simp]: "exn_bind (Inr x) f = f x"
  by (simp add: exn_bind_def)

lemma exn_bind_eq_Inr: "(exn_bind m f = Inr y) = (\<exists>x. m = Inr x \<and> f x = Inr y)"
  by (cases m) simp_all

lemma getitem_Some: "map_of d k = Some v \<Longrightarrow> getitem d k = Inr v"
  by (simp add: getitem_def)

lemma getitem_None: "map_of d k = None \<Longrightarrow> getitem d k = Inl (KeyError k)"
  by (simp add: getitem_def)

lemma is_ascii_Nil [simp]: "is_ascii []"
  by (simp add: is_ascii_def)

lemma is_ascii_Cons [simp]: "is_ascii (c # cs) = ((of_char c :: nat) < 128 \<and> is_ascii cs)"
  by (simp add: is_ascii_def)

lemma Time_datetime_less: "(Time_datetime a < Time_datetime b) = (a < b)"
  by (simp add: Time_datetime_def divide_less_cancel)

section \<open>The decimal text of an integer is read back by \<^verbatim>\<open>int\<close>\<close>

lemma str_nat_digit: "n < 10 \<Longrightarrow> str_nat n = [digit_char n]"
  by (subst str_nat.simps) simp

lemma digit_char_digit:
  assumes "d < 10"
  shows "is_digit (digit_char d)" and "digit_val (digit_char d) = d"
    and "\<not> is_space (digit_char d)" and "digit_char d \<noteq> CHR ''-''" and "digit_char d \<noteq> CHR ''+''"
proof -
  from assms have "d \<in> {0, 1, 2, 3, 4, 5, 6, 7, 8, 9}"
    by auto
  then show "is_digit (digit_char d)" and "digit_val (digit_char d) = d"
    and "\<not> is_space (digit_char d)" and "digit_char d \<noteq> CHR ''-''" and "digit_char d \<noteq> CHR ''+''"
    by (auto simp: digit_char_def is_digit_def digit_val_def is_space_def)
qed

lemma is_digit_no_space: "is_digit c \<Longrightarrow> \<not> is_space c"
  by (auto simp: is_digit_def is_space_def)

lemma is_digit_no_sign: "is_digit c \<Longrightarrow> c \<noteq> CHR ''-'' \<and> c \<noteq> CHR ''+''"
  by (auto simp: is_digit_def)

lemma more_digits_digits:
  "\<forall>c\<in>set s. is_digit c \<Longrightarrow>
   more_digits acc s = Some (foldl (\<lambda>a c. 10 * a + digit_val c) acc s)"
  by (induction acc s rule: more_digits.induct) simp_all

lemma nat_of_digits_digits:
  assumes "s \<noteq> []" and "\<forall>c\<in>set s. is_digit c"
  shows "nat_of_digits s = Some (foldl (\<lambda>a c. 10 * a + digit_val c) 0 s)"
  using assms by (cases s) (simp_all add: nat_of_digits_def more_digits_digits)

lemma str_nat_digits: "\<forall>c\<in>set (str_nat n). is_digit c"
proof (induction n rule: str_nat.induct)
  case (1 n)
  show ?case
  proof (cases "n < 10")
    case True
    then show ?thesis
      by (simp add: str_nat_digit digit_char_digit)
  next
    case False
    with "1" have "\<forall>c\<in>set (str_nat (n div 10)). is_digit c"
      by simp
    moreover have "is_digit (digit_char (n mod 10))"
      by (simp add: digit_char_digit)
    moreover from False have "str_nat n = str_nat (n div 10) @ [digit_char (n mod 10)]"
      by (subst str_nat.simps) simp
    ultimately show ?thesis by simp
  qed
qed

lemma str_nat_not_empty: "str_nat n \<noteq> []"
  by (subst str_nat.simps) simp

lemma str_nat_value: "foldl (\<lambda>a c. 10 * a + digit_val c) 0 (str_nat n) = n"
proof (induction n rule: str_nat.induct)
  case (1 n)
  show ?case
  proof (cases "n < 10")
    case True
    then show ?thesis
      by (simp add: str_nat_digit digit_char_digit)
  next
    case False
    with "1" have "foldl (\<lambda>a c. 10 * a + digit_val c) 0 (str_nat (n div 10)) = n div 10"
      by simp
    moreover from False have "str_nat n = str_nat (n div 10) @ [digit_char (n mod 10)]"
      by (subst str_nat.simps) simp
    ultimately show ?thesis
      by (simp add: digit_char_digit)
  qed
qed

lemma nat_of_digits_str_nat: "nat_of_digits (str_nat n) = Some n"
  by (simp add: nat_of_digits_digits str_nat_not_empty str_nat_digits str_nat_value)

lemma strip_no_space:
  assumes "s \<noteq> []" and "\<not> is_space (hd s)" and "\<not> is_space (last s)"
  shows "strip s = s"
proof -
  from assms have "dropWhile is_space s = s"
    by (cases s) simp_all
  moreover from assms have "dropWhile is_space (rev s) = rev s"
    by (cases s rule: rev_cases) simp_all
  ultimately show ?thesis
    by (simp add: strip_def)
qed

lemma strip_str_nat: "strip (str_nat n) = str_nat n"
proof (rule strip_no_space [OF str_nat_not_empty])
  have "hd (str_nat n) \<in> set (str_nat n)" and "last (str_nat n) \<in> set (str_nat n)"
    by (simp_all add: str_nat_not_empty)
  with str_nat_digits [of n] show "\<not> is_space (hd (str_nat n))" and "\<not> is_space (last (str_nat n))"
    by (auto dest: is_digit_no_space)
qed

lemma int_of_str_str_int: "int_of_str (str_int i) = Some i"
proof (cases "i < 0")
  case True
  let ?s = "CHR ''-'' # str_nat (nat (- i))"
  have "last ?s \<in> set (str_nat (nat (- i)))"
    by (simp add: str_nat_not_empty)
  with str_nat_digits [of "nat (- i)"] have "\<not> is_space (last ?s)"
    by (auto dest: is_digit_no_space)
  moreover have "\<not> is_space (hd ?s)"
    by (simp add: is_space_def)
  ultimately have "strip ?s = ?s"
    by (intro strip_no_space) simp_all
  with True show ?thesis
    by (simp add: int_of_str_def str_int_def nat_of_digits_str_nat)
next
  case False
  obtain c cs where s: "str_nat (nat i) = c # cs"
    using str_nat_not_empty [of "nat i"] by (cases "str_nat (nat i)") auto
  with str_nat_digits [of "nat i"] have "is_digit c"
    by simp
  then have "c \<noteq> CHR ''-''" and "c \<noteq> CHR ''+''"
    by (auto dest: is_digit_no_sign)
  moreover have "nat_of_digits (c # cs) = Some (nat i)"
    using nat_of_digits_str_nat [of "nat i"] s by simp
  moreover have "strip (str_nat (nat i)) = c # cs"
    using strip_str_nat [of "nat i"] s by simp
  ultimately show ?thesis
    using False by (simp add: int_of_str_def str_int_def)
qed

section \<open>The observation backfill\<close>

text \<open>
  C6. \<^verbatim>\<open>retrieve\<close> fails first of all when the allocation has no credentials. With
  credentials and a start date after the end date it fails with the module's
  \<^verbatim>\<open>ValueError\<close> and hands nothing to the executor: the world is unchanged, so no archive
  query is scheduled. With a start date not after the end date it raises nothing and
  schedules exactly one fetch for the instrument and the window.
\<close>

theorem retrieve_checks:
  "(altdata alloc = [] \<longrightarrow>
      retrieve alloc start_date end_date w =
        (Some (ValueError ''Missing allocation information.''), w))
   \<and> (altdata alloc \<noteq> [] \<and> end_date < start_date \<longrightarrow>
      retrieve alloc start_date end_date w =
        (Some (ValueError ''start_date must be before end_date.''), w))
   \<and> (altdata alloc \<noteq> [] \<and> start_date \<le> end_date \<longrightarrow>
      retrieve alloc start_date end_date w =
        (None, w\<lparr>run_in_executor := run_in_executor w @
           [fetch_obs (instrument_id alloc) (Time_datetime start_date)
              (Time_datetime end_date)]\<rparr>))"
  by (simp add: retrieve_def Time_datetime_less Let_def not_less [symmetric])

theorem retrieve_checks_witness:
  "retrieve (swift_allocation\<lparr>altdata := []\<rparr>) 10 20 empty_world =
     (Some (ValueError ''Missing allocation information.''), empty_world)
   \<and> retrieve swift_allocation 20 10 empty_world =
     (Some (ValueError ''start_date must be before end_date.''), empty_world)
   \<and> retrieve swift_allocation 10 20 empty_world =
     (None, empty_world\<lparr>run_in_executor := run_in_executor empty_world @
        [fetch_obs 7 (Time_datetime 10) (Time_datetime 20)]\<rparr>)"
  using retrieve_checks [of "swift_allocation\<lparr>altdata := []\<rparr>" 10 20 empty_world]
    retrieve_checks [of swift_allocation 20 10 empty_world]
    retrieve_checks [of swift_allocation 10 20 empty_world]
  by (simp add: swift_allocation_def)

lemma exn_bind_return [simp]: "exn_bind m Inr = m"
  by (cases m) simp_all

lemma row_observation_dropped: "dropped lib row \<Longrightarrow> row_observation lib row = Inr None"
  by (auto simp: dropped_def row_observation_def split: option.splits)

lemma row_observation_None: "row_observation lib row = Inr None \<Longrightarrow> dropped lib row"
  by (auto simp: dropped_def row_observation_def exn_bind_eq_Inr
      split: option.splits if_splits list.splits)

lemma observations_skip:
  "dropped lib row \<Longrightarrow>
   observations lib (before @ row # after) = observations lib (before @ after)"
  by (induction before) (simp_all add: row_observation_dropped)

lemma observations_retained:
  "observations lib rows = Inr obstable \<Longrightarrow>
   list_all2 (\<lambda>row ob. row_observation lib row = Inr (Some ob))
     (filter (\<lambda>row. \<not> dropped lib row) rows) obstable"
proof (induction rows arbitrary: obstable)
  case Nil
  then show ?case by simp
next
  case (Cons row rows)
  from Cons.prems obtain ob rest where
    ob: "row_observation lib row = Inr ob" and
    rest: "observations lib rows = Inr rest" and
    tab: "obstable = (case ob of None \<Rightarrow> rest | Some d \<Rightarrow> d # rest)"
    by (auto simp: exn_bind_eq_Inr)
  show ?case
  proof (cases ob)
    case None
    with ob have "dropped lib row" by (simp add: row_observation_None)
    with Cons.IH [OF rest] tab None show ?thesis by simp
  next
    case (Some d)
    with ob have "\<not> dropped lib row" by (auto dest: row_observation_dropped)
    with Cons.IH [OF rest] tab Some ob show ?thesis by simp
  qed
qed

lemma row_observation_fields:
  "row_observation lib row = Inr (Some ob) \<Longrightarrow>
   (\<exists>entry rest. UVOT_mode lib (uvot row) = Some (entry # rest)
      \<and> map_of ob ''filter'' = Some (PStr (''uvot::'' @ fstr (repr lib) (filter_name entry))))
   \<and> map_of ob ''processed_fraction'' = Some (PFloat 1)
   \<and> map_of ob ''seeing'' = Some PNone \<and> map_of ob ''limmag'' = Some PNone"
  by (auto simp: row_observation_def observation_def exn_bind_eq_Inr
      split: option.splits if_splits list.splits)

text \<open>
  C7. A row whose mode has no entries (\<^verbatim>\<open>mode.entries is None\<close>) or whose
  \<^verbatim>\<open>ra_object\<close> or \<^verbatim>\<open>dec_object\<close> is \<^verbatim>\<open>None\<close> is skipped: the loop body yields
  nothing for it and raises nothing, so the run over the other rows is what it would be
  without that row. When the loop ends normally, its table has exactly one dictionary for
  each row that is not skipped, in order. Every such dictionary has the filter
  \<^verbatim>\<open>uvot::\<close> followed by the text of the filter name of the first entry of the decoded
  mode (the name itself when it is a string), the processed fraction 1.0, and \<^verbatim>\<open>None\<close>
  for seeing and limiting magnitude. \<^verbatim>\<open>fetch_observations\<close> hands that table, and nothing
  else, to the observation store.
\<close>

theorem backfill_rows:
  "(dropped lib row \<longrightarrow>
      row_observation lib row = Inr None
      \<and> observations lib (before @ row # after) = observations lib (before @ after))
   \<and> (observations lib rows = Inr obstable \<longrightarrow>
      list_all2 (\<lambda>row ob. row_observation lib row = Inr (Some ob))
        (filter (\<lambda>row. \<not> dropped lib row) rows) obstable)
   \<and> (row_observation lib kept = Inr (Some ob) \<longrightarrow>
      (\<exists>entry rest. UVOT_mode lib (uvot kept) = Some (entry # rest)
         \<and> map_of ob ''filter'' = Some (PStr (''uvot::'' @ fstr (repr lib) (filter_name entry)))
         \<and> (\<forall>name. filter_name entry = PStr name \<longrightarrow>
               map_of ob ''filter'' = Some (PStr (''uvot::'' @ name))))
      \<and> map_of ob ''processed_fraction'' = Some (PFloat 1)
      \<and> map_of ob ''seeing'' = Some PNone \<and> map_of ob ''limmag'' = Some PNone)
   \<and> (fetch_observations lib instrument request_start request_end w = (None, w') \<longrightarrow>
      (\<exists>table.
         observations lib (ObsQuery lib (window_query lib request_start request_end)) = Inr table
         \<and> w' = w\<lparr>observation_store := observation_store w @ map (Pair instrument) table\<rparr>))"
proof (intro conjI impI)
  assume "dropped lib row"
  then show "row_observation lib row = Inr None"
    by (rule row_observation_dropped)
next
  assume "dropped lib row"
  then show "observations lib (before @ row # after) = observations lib (before @ after)"
    by (rule observations_skip)
next
  assume "observations lib rows = Inr obstable"
  then show "list_all2 (\<lambda>row ob. row_observation lib row = Inr (Some ob))
        (filter (\<lambda>row. \<not> dropped lib row) rows) obstable"
    by (rule observations_retained)
next
  assume kept: "row_observation lib kept = Inr (Some ob)"
  from row_observation_fields [OF kept]
  show "\<exists>entry rest. UVOT_mode lib (uvot kept) = Some (entry # rest)
         \<and> map_of ob ''filter'' = Some (PStr (''uvot::'' @ fstr (repr lib) (filter_name entry)))
         \<and> (\<forall>name. filter_name entry = PStr name \<longrightarrow>
               map_of ob ''filter'' = Some (PStr (''uvot::'' @ name)))"
    by (auto simp: fstr_def)
  from row_observation_fields [OF kept]
  show "map_of ob ''processed_fraction'' = Some (PFloat 1)" by simp
  from row_observation_fields [OF kept]
  show "map_of ob ''seeing'' = Some PNone" by simp
  from row_observation_fields [OF kept]
  show "map_of ob ''limmag'' = Some PNone" by simp
next
  assume "fetch_observations lib instrument request_start request_end w = (None, w')"
  then show "\<exists>table.
         observations lib (ObsQuery lib (window_query lib request_start request_end)) = Inr table
         \<and> w' = w\<lparr>observation_store := observation_store w @ map (Pair instrument) table\<rparr>"
    by (auto simp: fetch_observations_def add_observations_def Let_def split: sum.splits)
qed

lemma backfill_UVOT_mode:
  "UVOT_mode backfill_library (PStr ''0x30ed'') = Some [\<lparr>filter_name = PStr ''u''\<rparr>, \<lparr>filter_name = PStr ''b''\<rparr>]"
  by (simp add: backfill_library_def swift_library_def)

lemma backfill_ObsQuery:
  "ObsQuery backfill_library q = [archive_row\<lparr>ra_object := PNone\<rparr>, archive_row]"
  by (simp add: backfill_library_def)

lemma strip_obsid: "strip ''00012345001'' = ''00012345001''"
  by (simp add: strip_def is_space_def)

lemma obsid_value: "int_of_str ''00012345001'' = Some 12345001"
  by (simp add: int_of_str_def strip_obsid nat_of_digits_def is_digit_def digit_val_def)

lemma archive_row_observation:
  "row_observation backfill_library archive_row =
     Inr (Some (observation backfill_library archive_row \<lparr>filter_name = PStr ''u''\<rparr> 12345001))"
  by (simp add: row_observation_def backfill_UVOT_mode obsid_value archive_row_def)

theorem backfill_rows_witness:
  "observations backfill_library [archive_row\<lparr>ra_object := PNone\<rparr>, archive_row] =
     observations backfill_library [archive_row]
   \<and> list_all2 (\<lambda>row ob. row_observation backfill_library row = Inr (Some ob))
       (filter (\<lambda>row. \<not> dropped backfill_library row) [archive_row])
       [observation backfill_library archive_row \<lparr>filter_name = PStr ''u''\<rparr> 12345001]
   \<and> map_of (observation backfill_library archive_row \<lparr>filter_name = PStr ''u''\<rparr> 12345001) ''filter'' =
       Some (PStr ''uvot::u'')
   \<and> map_of (observation backfill_library archive_row \<lparr>filter_name = PStr ''u''\<rparr> 12345001)
        ''processed_fraction'' = Some (PFloat 1)
   \<and> fetch_observations backfill_library 7 1 2 empty_world =
       (None, empty_world\<lparr>observation_store :=
          [(7, observation backfill_library archive_row \<lparr>filter_name = PStr ''u''\<rparr> 12345001)]\<rparr>)"
proof -
  let ?ob = "observation backfill_library archive_row \<lparr>filter_name = PStr ''u''\<rparr> 12345001"
  let ?w = "empty_world\<lparr>observation_store := [(7, ?ob)]\<rparr>"
  have d: "dropped backfill_library (archive_row\<lparr>ra_object := PNone\<rparr>)"
    by (simp add: dropped_def)
  have m: "UVOT_mode backfill_library (uvot archive_row) =
      Some [\<lparr>filter_name = PStr ''u''\<rparr>, \<lparr>filter_name = PStr ''b''\<rparr>]"
    by (simp add: archive_row_def backfill_UVOT_mode)
  have one: "observations backfill_library [archive_row] = Inr [?ob]"
    by (simp add: archive_row_observation)
  note t = backfill_rows [of backfill_library "archive_row\<lparr>ra_object := PNone\<rparr>" "[]" "[archive_row]"
      "[archive_row]" "[?ob]" archive_row ?ob 7 1 2 empty_world ?w]
  note t1 = t [THEN conjunct1, rule_format, OF d]
  note t2 = t [THEN conjunct2, THEN conjunct1, rule_format, OF one]
  note t3 = t [THEN conjunct2, THEN conjunct2, THEN conjunct1, rule_format,
      OF archive_row_observation]
  have skip: "observations backfill_library [archive_row\<lparr>ra_object := PNone\<rparr>, archive_row] =
     observations backfill_library [archive_row]"
    using t1 [THEN conjunct2] by simp
  from t3 [THEN conjunct1] m
  have filt: "map_of ?ob ''filter'' = Some (PStr ''uvot::u'')"
    by (clarsimp simp: fstr_def)
  have frac: "map_of ?ob ''processed_fraction'' = Some (PFloat 1)"
    using t3 [THEN conjunct2] by simp
  have f: "fetch_observations backfill_library 7 1 2 empty_world = (None, ?w)"
    unfolding fetch_observations_def backfill_ObsQuery Let_def skip one
    by (simp add: add_observations_def empty_world_def)
  from skip t2 filt frac f show ?thesis by blast
qed

lemma too_payload [simp]:
  "map_of (payload too_request) ''source_type'' = Some (PStr ''Optical fast transient'')"
  "map_of (payload too_request) ''exposure_time'' = Some (PFloat 4000)"
  "map_of (payload too_request) ''monitoring_freq'' = Some (PInt 1)"
  "map_of (payload too_request) ''exposure_counts'' = Some (PInt 1)"
  "map_of (payload too_request) ''exp_time_just'' = Some (PStr ''4ks should suffice'')"
  "map_of (payload too_request) ''immediate_objective'' = Some (PStr ''measure the X-ray emission'')"
  "map_of (payload too_request) ''urgency'' = Some (PStr ''3'')"
  "map_of (payload too_request) ''obs_type'' = Some (PStr ''Light Curve'')"
  "map_of (payload too_request) ''uvot_mode'' = Some (PStr ''0x9999 - Default (Filter of the day)'')"
  "map_of (payload too_request) ''science_just'' =
     Some (PStr ''associate the transient with a relativistic explosion'')"
  "map_of (payload too_request) ''opt_mag'' = None"
  "map_of (payload too_request) ''opt_filt'' = None"
  "map_of (payload too_request) ''xrt_countrate'' = Some (PFloat (1 / 400))"
  "map_of (payload too_request) ''uvot_just'' = None"
  "map_of (payload too_request) ''request_type'' = Some (PStr ''XRT/UVOT ToO'')"
  by (simp_all add: too_request_def)

lemma too_altdata [simp]:
  "map_of (altdata (allocation too_request)) ''username'' = Some (PStr ''observer'')"
  "map_of (altdata (allocation too_request)) ''secret'' = Some (PStr ''s3cret'')"
  "map_of (altdata (allocation too_request)) ''XRT_UserID'' = Some (PStr ''observer@example.org'')"
  "map_of (altdata (allocation too_request)) ''notification_type'' = None"
  "altdata (allocation too_request) \<noteq> []"
  by (simp_all add: too_request_def swift_allocation_def)

lemma with_field_payload:
  "map_of (payload (with_field k v request)) k' =
     (if k' = k then Some v else map_of (payload request) k')"
  by (simp add: with_field_def)

lemma with_field_others [simp]:
  "allocation (with_field k v request) = allocation request"
  "obj (with_field k v request) = obj request"
  by (simp_all add: with_field_def)

section \<open>The ToO builder\<close>

lemma UVOTXRTRequest_stages:
  "UVOTXRTRequest lib request = Inr too \<Longrightarrow>
   \<exists>t1 t2. basic_fields lib request = Inr t1 \<and> urgency_and_obs_type lib request t1 = Inr t2
     \<and> uvot_fields request t2 = Inr too"
  by (auto simp: UVOTXRTRequest_def exn_bind_eq_Inr)

lemma basic_fields_monitoring_freq:
  "basic_fields lib request = Inr t \<Longrightarrow>
   \<exists>v days. map_of (payload request) ''monitoring_freq'' = Some v \<and> format_d v = Inr days
     \<and> monitoring_freq t = PStr (days @ '' days'')"
  by (auto simp: basic_fields_def Let_def exn_bind_eq_Inr getitem_def split: option.splits)

lemma urgency_and_obs_type_result:
  "urgency_and_obs_type lib request t = Inr t' \<Longrightarrow>
   \<exists>u v. converted_urgency lib request = Inr u \<and> 0 \<le> u \<and> u \<le> 4 
     \<and> map_of (payload request) ''obs_type'' = Some v \<and> v \<in> set obs_types
     \<and> t' = t\<lparr>urgency := PInt u, obs_type := v\<rparr>"
  by (auto simp: urgency_and_obs_type_def exn_bind_eq_Inr getitem_def
      split: sum.splits if_splits option.splits)

lemma uvot_fields_result:
  assumes a: "uvot_fields request t = Inr t'"
  shows "\<exists>v i sj. map_of (payload request) ''uvot_mode'' = Some v
     \<and> index_of (map PStr modes_values) v = Some i
     \<and> map_of (payload request) ''science_just'' = Some sj
     \<and> (if modes_keys ! i = ''0x9999''
         then t' = t\<lparr>uvot_mode := PStr (modes_keys ! i), science_just := sj\<rparr>
         else truthy (dict_get (payload request) ''uvot_just'' PNone)
           \<and> t' = t\<lparr>uvot_mode := PStr (modes_keys ! i), science_just := sj,
                    uvot_just := dict_get (payload request) ''uvot_just'' PNone\<rparr>)"
proof -
  have "\<exists>v. map_of (payload request) ''uvot_mode'' = Some v"
    using a by (cases "map_of (payload request) ''uvot_mode''")
      (simp_all add: uvot_fields_def getitem_def)
  then obtain v where v: "map_of (payload request) ''uvot_mode'' = Some v" ..
  have "\<exists>i. index_of (map PStr modes_values) v = Some i"
    using a v by (cases "index_of (map PStr modes_values) v")
      (simp_all add: uvot_fields_def getitem_def)
  then obtain i where i: "index_of (map PStr modes_values) v = Some i" ..
  have "\<exists>sj. map_of (payload request) ''science_just'' = Some sj"
    using a v i
    by (cases "map_of (payload request) ''science_just''")
      (simp_all add: uvot_fields_def getitem_def)
  then obtain sj where sj: "map_of (payload request) ''science_just'' = Some sj" ..
  have "if modes_keys ! i = ''0x9999''
         then t' = t\<lparr>uvot_mode := PStr (modes_keys ! i), science_just := sj\<rparr>
         else truthy (dict_get (payload request) ''uvot_just'' PNone)
           \<and> t' = t\<lparr>uvot_mode := PStr (modes_keys ! i), science_just := sj,
                    uvot_just := dict_get (payload request) ''uvot_just'' PNone\<rparr>"
  proof (cases "modes_keys ! i = ''0x9999''")
    case True
    with a v i sj show ?thesis
      by (simp add: uvot_fields_def getitem_def)
  next
    case False
    with a v i sj show ?thesis
      by (simp add: uvot_fields_def getitem_def Let_def split: if_splits)
  qed
  with v i sj show ?thesis by blast
qed

lemma uvot_fields_keeps:
  assumes "uvot_fields request t = Inr t'"
  shows "monitoring_freq t' = monitoring_freq t \<and> urgency t' = urgency t"
proof -
  from uvot_fields_result [OF assms] obtain i sj where
    "if modes_keys ! i = ''0x9999''
         then t' = t\<lparr>uvot_mode := PStr (modes_keys ! i), science_just := sj\<rparr>
         else truthy (dict_get (payload request) ''uvot_just'' PNone)
           \<and> t' = t\<lparr>uvot_mode := PStr (modes_keys ! i), science_just := sj,
                    uvot_just := dict_get (payload request) ''uvot_just'' PNone\<rparr>"
    by blast
  then show ?thesis
    by (cases "modes_keys ! i = ''0x9999''") simp_all
qed

lemma format_d_int: "is_int v \<Longrightarrow> format_d v = Inr (str_int (int_value v))"
  by (cases v) simp_all

lemma format_d_not_int: "\<not> is_int v \<Longrightarrow> \<exists>e. format_d v = Inl e"
  by (cases v) simp_all

lemma basic_fields_not_int:
  assumes "map_of (payload request) ''monitoring_freq'' = Some v" and "\<not> is_int v"
  shows "\<exists>e. basic_fields lib request = Inl e"
proof (cases "basic_fields lib request")
  case (Inl e)
  then show ?thesis by simp
next
  case (Inr t)
  from basic_fields_monitoring_freq [OF Inr] format_d_not_int [OF assms(2)] assms(1)
  show ?thesis by auto
qed

text \<open>
  C10. The monitoring frequency is rendered with the format code \<open>d\<close>. For a value that is
  not an integer (a float, also one with an integral value, a string, \<^verbatim>\<open>None\<close>, ...)
  the builder raises; when the four fields read before it are present, what it raises is
  the exception of the formatting itself. For an integer \<open>n\<close> (Python counts
  \<^verbatim>\<open>True\<close> and \<^verbatim>\<open>False\<close> as 1 and 0) a built payload has the monitoring frequency
  \<^verbatim>\<open>n days\<close>, with \<open>n\<close> in decimal (\<open>int_of_str_str_int\<close>: the text \<open>str_int n\<close>
  is read back as \<open>n\<close>).
\<close>

theorem monitoring_freq_days:
  "(map_of (payload request) ''monitoring_freq'' = Some v \<and> \<not> is_int v \<longrightarrow>
      (\<exists>e. UVOTXRTRequest lib request = Inl e))
   \<and> (map_of (altdata (allocation request)) ''username'' = Some a
       \<and> map_of (altdata (allocation request)) ''secret'' = Some b
       \<and> map_of (payload request) ''source_type'' = Some c
       \<and> map_of (payload request) ''exposure_time'' = Some d
       \<and> map_of (payload request) ''monitoring_freq'' = Some v \<and> \<not> is_int v \<longrightarrow>
      (\<exists>e. format_d v = Inl e \<and> UVOTXRTRequest lib request = Inl e))
   \<and> (map_of (payload request) ''monitoring_freq'' = Some v \<and> is_int v
       \<and> UVOTXRTRequest lib request = Inr too \<longrightarrow>
      monitoring_freq too = PStr (str_int (int_value v) @ '' days''))"
proof (intro conjI impI)
  assume "map_of (payload request) ''monitoring_freq'' = Some v \<and> \<not> is_int v"
  then obtain e where "basic_fields lib request = Inl e"
    using basic_fields_not_int by blast
  then show "\<exists>e. UVOTXRTRequest lib request = Inl e"
    by (simp add: UVOTXRTRequest_def)
next
  assume h: "map_of (altdata (allocation request)) ''username'' = Some a
       \<and> map_of (altdata (allocation request)) ''secret'' = Some b
       \<and> map_of (payload request) ''source_type'' = Some c
       \<and> map_of (payload request) ''exposure_time'' = Some d
       \<and> map_of (payload request) ''monitoring_freq'' = Some v \<and> \<not> is_int v"
  then obtain e where e: "format_d v = Inl e"
    using format_d_not_int by blast
  with h have "basic_fields lib request = Inl e"
    by (simp add: basic_fields_def Let_def getitem_def)
  with e show "\<exists>e. format_d v = Inl e \<and> UVOTXRTRequest lib request = Inl e"
    by (simp add: UVOTXRTRequest_def)
next
  assume h: "map_of (payload request) ''monitoring_freq'' = Some v \<and> is_int v
       \<and> UVOTXRTRequest lib request = Inr too"
  then obtain t1 t2 where
    t1: "basic_fields lib request = Inr t1" and
    t2: "urgency_and_obs_type lib request t1 = Inr t2" and
    t3: "uvot_fields request t2 = Inr too"
    using UVOTXRTRequest_stages by blast
  from basic_fields_monitoring_freq [OF t1] h format_d_int [of v]
  have "monitoring_freq t1 = PStr (str_int (int_value v) @ '' days'')"
    by auto
  moreover from urgency_and_obs_type_result [OF t2]
  have "monitoring_freq t2 = monitoring_freq t1"
    by auto
  moreover from uvot_fields_keeps [OF t3]
  have "monitoring_freq too = monitoring_freq t2"
    by simp
  ultimately show "monitoring_freq too = PStr (str_int (int_value v) @ '' days'')"
    by simp
qed

lemma basic_fields_read:
  assumes "map_of (altdata (allocation request)) ''username'' = Some a"
    and "map_of (altdata (allocation request)) ''secret'' = Some b"
    and "map_of (payload request) ''source_type'' = Some c"
    and "map_of (payload request) ''exposure_time'' = Some d"
    and "map_of (payload request) ''monitoring_freq'' = Some m" and "is_int m"
    and "map_of (payload request) ''exposure_counts'' = Some n"
    and "py_int (int_text lib) n = Inr k"
    and "map_of (payload request) ''exp_time_just'' = Some j"
    and "map_of (payload request) ''immediate_objective'' = Some ob"
  shows "\<exists>t. basic_fields lib request = Inr t"
  using assms by (simp add: basic_fields_def getitem_def format_d_int)

lemma converted_urgency_payload:
  "converted_urgency lib request =
     (case map_of (payload request) ''urgency'' of
        None \<Rightarrow> Inl (KeyError ''urgency'')
      | Some v \<Rightarrow> py_int (int_text lib) v)"
  by (simp add: converted_urgency_def getitem_def split: option.splits)

text \<open>
  C5. A built payload carries the integer that \<^verbatim>\<open>int\<close> makes of
  \<^verbatim>\<open>payload["urgency"]\<close>, and that integer is one of 0, 1, 2, 3, 4. When \<^verbatim>\<open>int\<close>
  refuses the value, or makes of it an integer outside that set, the build raises, whatever
  the other fields are. For a payload that is valid up to the urgency, that is, whose
  fields read on lines 180 to 196 are in order (credentials, source type, exposure time, an
  integer monitoring frequency, a number of visits that \<^verbatim>\<open>int\<close> accepts, the two
  texts), what it raises is the module's \<^verbatim>\<open>ValueError\<close>: the one of line 201, which
  carries the refusal of \<^verbatim>\<open>int\<close>, or the one of line 203, which carries the integer.
\<close>

theorem urgency_range:
  "(UVOTXRTRequest lib request = Inr too \<longrightarrow>
      (\<exists>v u. map_of (payload request) ''urgency'' = Some v
         \<and> py_int (int_text lib) v = Inr u \<and> urgency too = PInt u \<and> u \<in> {0, 1, 2, 3, 4}))
   \<and> (map_of (payload request) ''urgency'' = Some v \<and> py_int (int_text lib) v = Inl e \<longrightarrow>
      (\<exists>e'. UVOTXRTRequest lib request = Inl e'))
   \<and> (map_of (payload request) ''urgency'' = Some v \<and> py_int (int_text lib) v = Inr u
       \<and> u \<notin> {0, 1, 2, 3, 4} \<longrightarrow>
      (\<exists>e'. UVOTXRTRequest lib request = Inl e'))
   \<and> (map_of (altdata (allocation request)) ''username'' = Some a
       \<and> map_of (altdata (allocation request)) ''secret'' = Some b
       \<and> map_of (payload request) ''source_type'' = Some c
       \<and> map_of (payload request) ''exposure_time'' = Some d
       \<and> map_of (payload request) ''monitoring_freq'' = Some m \<and> is_int m
       \<and> map_of (payload request) ''exposure_counts'' = Some n
       \<and> py_int (int_text lib) n = Inr k
       \<and> map_of (payload request) ''exp_time_just'' = Some j
       \<and> map_of (payload request) ''immediate_objective'' = Some ob \<longrightarrow>
      (map_of (payload request) ''urgency'' = Some v \<and> py_int (int_text lib) v = Inl e \<longrightarrow>
         UVOTXRTRequest lib request =
           Inl (ValueErrorFrom ''Could not convert urgency to a valid integer: '' e))
      \<and> (map_of (payload request) ''urgency'' = Some v \<and> py_int (int_text lib) v = Inr u
          \<and> u \<notin> {0, 1, 2, 3, 4} \<longrightarrow>
         UVOTXRTRequest lib request =
           Inl (ValueError (''urgency must be one of 0, 1, 2, 3, or 4, and not: '' @ str_int u))))"
proof (intro conjI impI)
  assume "UVOTXRTRequest lib request = Inr too"
  then obtain t1 t2 where
    t2: "urgency_and_obs_type lib request t1 = Inr t2" and
    t3: "uvot_fields request t2 = Inr too"
    using UVOTXRTRequest_stages by blast
  from urgency_and_obs_type_result [OF t2] obtain u where
    u: "converted_urgency lib request = Inr u" "0 \<le> u" "u \<le> 4" "urgency t2 = PInt u"
    by auto
  from u(1) obtain v where
    "map_of (payload request) ''urgency'' = Some v" "py_int (int_text lib) v = Inr u"
    by (auto simp: converted_urgency_payload split: option.splits)
  moreover from uvot_fields_keeps [OF t3] u(4) have "urgency too = PInt u"
    by simp
  moreover from u(2,3) have "u \<in> {0, 1, 2, 3, 4}"
    by auto
  ultimately show "\<exists>v u. map_of (payload request) ''urgency'' = Some v
         \<and> py_int (int_text lib) v = Inr u \<and> urgency too = PInt u \<and> u \<in> {0, 1, 2, 3, 4}"
    by blast
next
  assume bad: "map_of (payload request) ''urgency'' = Some v \<and> py_int (int_text lib) v = Inl e"
  show "\<exists>e'. UVOTXRTRequest lib request = Inl e'"
  proof (cases "UVOTXRTRequest lib request")
    case (Inl e')
    then show ?thesis by simp
  next
    case (Inr too)
    then obtain t1 t2 where t2: "urgency_and_obs_type lib request t1 = Inr t2"
      using UVOTXRTRequest_stages by blast
    from urgency_and_obs_type_result [OF t2] bad show ?thesis
      by (auto simp: converted_urgency_payload)
  qed
next
  assume bad: "map_of (payload request) ''urgency'' = Some v \<and> py_int (int_text lib) v = Inr u
       \<and> u \<notin> {0, 1, 2, 3, 4}"
  show "\<exists>e'. UVOTXRTRequest lib request = Inl e'"
  proof (cases "UVOTXRTRequest lib request")
    case (Inl e')
    then show ?thesis by simp
  next
    case (Inr too)
    then obtain t1 t2 where t2: "urgency_and_obs_type lib request t1 = Inr t2"
      using UVOTXRTRequest_stages by blast
    from urgency_and_obs_type_result [OF t2] bad show ?thesis
      by (auto simp: converted_urgency_payload)
  qed
next
  assume h: "map_of (altdata (allocation request)) ''username'' = Some a
       \<and> map_of (altdata (allocation request)) ''secret'' = Some b
       \<and> map_of (payload request) ''source_type'' = Some c
       \<and> map_of (payload request) ''exposure_time'' = Some d
       \<and> map_of (payload request) ''monitoring_freq'' = Some m \<and> is_int m
       \<and> map_of (payload request) ''exposure_counts'' = Some n
       \<and> py_int (int_text lib) n = Inr k
       \<and> map_of (payload request) ''exp_time_just'' = Some j
       \<and> map_of (payload request) ''immediate_objective'' = Some ob"
  then obtain t where t: "basic_fields lib request = Inr t"
    using basic_fields_read [of request a b c d m n lib k j ob] by blast
  {
    assume "map_of (payload request) ''urgency'' = Some v \<and> py_int (int_text lib) v = Inl e"
    with t show "UVOTXRTRequest lib request =
           Inl (ValueErrorFrom ''Could not convert urgency to a valid integer: '' e)"
      by (simp add: UVOTXRTRequest_def urgency_and_obs_type_def converted_urgency_payload)
  next
    assume b: "map_of (payload request) ''urgency'' = Some v \<and> py_int (int_text lib) v = Inr u
          \<and> u \<notin> {0, 1, 2, 3, 4}"
    then have "u < 0 \<or> u > 4"
      by auto
    with b t show "UVOTXRTRequest lib request =
           Inl (ValueError (''urgency must be one of 0, 1, 2, 3, or 4, and not: '' @ str_int u))"
      by (auto simp: UVOTXRTRequest_def urgency_and_obs_type_def converted_urgency_payload)
  }
qed

lemma index_of_None: "(index_of xs v = None) = (v \<notin> set xs)"
  by (induction xs) auto

lemma index_of_table:
  assumes "distinct (map snd ps)" and "(k, l) \<in> set ps"
  shows "\<exists>i. index_of (map PStr (map snd ps)) (PStr l) = Some i \<and> map fst ps ! i = k"
  using assms
proof (induction ps)
  case Nil
  then show ?case by simp
next
  case (Cons p ps)
  show ?case
  proof (cases "snd p = l")
    case True
    with Cons.prems have "p = (k, l)"
      by (cases p) (auto simp: image_iff)
    then show ?thesis by simp
  next
    case False
    with Cons.prems have "distinct (map snd ps)" and "(k, l) \<in> set ps"
      by auto
    from Cons.IH [OF this] obtain i where
      "index_of (map PStr (map snd ps)) (PStr l) = Some i" and "map fst ps ! i = k"
      by blast
    with False show ?thesis by simp
  qed
qed

lemma modes_distinct: "distinct (map snd modes)"
  by (simp add: modes_def)

lemma modes_index:
  "(key, label) \<in> set modes \<Longrightarrow>
   \<exists>i. index_of (map PStr modes_values) (PStr label) = Some i \<and> modes_keys ! i = key"
  unfolding modes_values_def modes_keys_def
  by (rule index_of_table [OF modes_distinct])

lemma uvot_fields_unknown_mode:
  assumes "map_of (payload request) ''uvot_mode'' = Some v" and "v \<notin> PStr ` set modes_values"
  shows "uvot_fields request t = Inl (ValueError ''tuple.index(x): x not in tuple'')"
proof -
  from assms(2) have "index_of (map PStr modes_values) v = None"
    by (simp add: index_of_None)
  with assms(1) show ?thesis
    by (simp add: uvot_fields_def getitem_def)
qed

lemma uvot_fields_known_mode:
  assumes "map_of (payload request) ''uvot_mode'' = Some (PStr label)"
    and "(key, label) \<in> set modes" and "key \<noteq> ''0x9999''"
    and "map_of (payload request) ''science_just'' = Some sj"
  shows "uvot_fields request t =
     (if truthy (dict_get (payload request) ''uvot_just'' PNone)
      then Inr (t\<lparr>uvot_mode := PStr key, science_just := sj,
                  uvot_just := dict_get (payload request) ''uvot_just'' PNone\<rparr>)
      else Inl (ValueError
        ''uvot_just is required when the UVOT mode select is 0x0270 (ToO Upload Mode).''))"
proof -
  from modes_index [OF assms(2)] obtain i where
    "index_of (map PStr modes_values) (PStr label) = Some i" and "modes_keys ! i = key"
    by blast
  with assms(1,3,4) show ?thesis
    by (simp add: uvot_fields_def getitem_def Let_def)
qed

text \<open>
  C4, as the code has it. The mode table has 16 entries. A build whose mode value is not
  one of the 16 labels raises, and so does a build with a label of a mode other than
  \<^verbatim>\<open>0x9999\<close> whose justification is missing or empty; once the fields before the mode
  have been read (and the science justification is there), what is raised is a
  \<^verbatim>\<open>ValueError\<close>. With such a label and a justification that is not empty the build
  succeeds, with the code of the mode and the justification in the payload. A
  justification that is supplied but empty is refused like a missing one.
\<close>

theorem uvot_mode_checked:
  "length modes = 16
   \<and> (map_of (payload request) ''uvot_mode'' = Some v \<and> v \<notin> PStr ` set modes_values \<longrightarrow>
      (\<exists>e. UVOTXRTRequest lib request = Inl e))
   \<and> (basic_fields lib request = Inr t1 \<and> urgency_and_obs_type lib request t1 = Inr t2
       \<and> map_of (payload request) ''uvot_mode'' = Some v \<and> v \<notin> PStr ` set modes_values \<longrightarrow>
      UVOTXRTRequest lib request = Inl (ValueError ''tuple.index(x): x not in tuple''))
   \<and> (map_of (payload request) ''uvot_mode'' = Some (PStr label)
       \<and> (key, label) \<in> set modes \<and> key \<noteq> ''0x9999''
       \<and> \<not> truthy (dict_get (payload request) ''uvot_just'' PNone) \<longrightarrow>
      (\<exists>e. UVOTXRTRequest lib request = Inl e))
   \<and> (basic_fields lib request = Inr t1 \<and> urgency_and_obs_type lib request t1 = Inr t2
       \<and> map_of (payload request) ''uvot_mode'' = Some (PStr label)
       \<and> (key, label) \<in> set modes \<and> key \<noteq> ''0x9999''
       \<and> map_of (payload request) ''science_just'' = Some sj
       \<and> \<not> truthy (dict_get (payload request) ''uvot_just'' PNone) \<longrightarrow>
      UVOTXRTRequest lib request = Inl (ValueError
        ''uvot_just is required when the UVOT mode select is 0x0270 (ToO Upload Mode).''))
   \<and> (basic_fields lib request = Inr t1 \<and> urgency_and_obs_type lib request t1 = Inr t2
       \<and> map_of (payload request) ''uvot_mode'' = Some (PStr label)
       \<and> (key, label) \<in> set modes \<and> key \<noteq> ''0x9999''
       \<and> map_of (payload request) ''science_just'' = Some sj
       \<and> truthy (dict_get (payload request) ''uvot_just'' PNone) \<longrightarrow>
      UVOTXRTRequest lib request =
        Inr (t2\<lparr>uvot_mode := PStr key, science_just := sj,
                 uvot_just := dict_get (payload request) ''uvot_just'' PNone\<rparr>))"
proof (intro conjI impI)
  show "length modes = 16"
    by (simp add: modes_def)
next
  assume h: "map_of (payload request) ''uvot_mode'' = Some v \<and> v \<notin> PStr ` set modes_values"
  show "\<exists>e. UVOTXRTRequest lib request = Inl e"
  proof (cases "UVOTXRTRequest lib request")
    case (Inl e)
    then show ?thesis by simp
  next
    case (Inr too)
    then obtain t where "uvot_fields request t = Inr too"
      using UVOTXRTRequest_stages by blast
    with h uvot_fields_unknown_mode [of request v t] show ?thesis
      by simp
  qed
next
  assume "basic_fields lib request = Inr t1 \<and> urgency_and_obs_type lib request t1 = Inr t2
       \<and> map_of (payload request) ''uvot_mode'' = Some v \<and> v \<notin> PStr ` set modes_values"
  then show "UVOTXRTRequest lib request = Inl (ValueError ''tuple.index(x): x not in tuple'')"
    using uvot_fields_unknown_mode [of request v t2]
    by (simp add: UVOTXRTRequest_def)
next
  assume h: "map_of (payload request) ''uvot_mode'' = Some (PStr label)
       \<and> (key, label) \<in> set modes \<and> key \<noteq> ''0x9999''
       \<and> \<not> truthy (dict_get (payload request) ''uvot_just'' PNone)"
  show "\<exists>e. UVOTXRTRequest lib request = Inl e"
  proof (cases "UVOTXRTRequest lib request")
    case (Inl e)
    then show ?thesis by simp
  next
    case (Inr too)
    then obtain t where t: "uvot_fields request t = Inr too"
      using UVOTXRTRequest_stages by blast
    from uvot_fields_result [OF t] obtain sj where
      "map_of (payload request) ''science_just'' = Some sj"
      by blast
    with h t uvot_fields_known_mode [of request label key sj t] show ?thesis
      by simp
  qed
next
  assume "basic_fields lib request = Inr t1 \<and> urgency_and_obs_type lib request t1 = Inr t2
       \<and> map_of (payload request) ''uvot_mode'' = Some (PStr label)
       \<and> (key, label) \<in> set modes \<and> key \<noteq> ''0x9999''
       \<and> map_of (payload request) ''science_just'' = Some sj
       \<and> \<not> truthy (dict_get (payload request) ''uvot_just'' PNone)"
  then show "UVOTXRTRequest lib request = Inl (ValueError
        ''uvot_just is required when the UVOT mode select is 0x0270 (ToO Upload Mode).'')"
    using uvot_fields_known_mode [of request label key sj t2]
    by (simp add: UVOTXRTRequest_def)
next
  assume "basic_fields lib request = Inr t1 \<and> urgency_and_obs_type lib request t1 = Inr t2
       \<and> map_of (payload request) ''uvot_mode'' = Some (PStr label)
       \<and> (key, label) \<in> set modes \<and> key \<noteq> ''0x9999''
       \<and> map_of (payload request) ''science_just'' = Some sj
       \<and> truthy (dict_get (payload request) ''uvot_just'' PNone)"
  then show "UVOTXRTRequest lib request =
        Inr (t2\<lparr>uvot_mode := PStr key, science_just := sj,
                 uvot_just := dict_get (payload request) ''uvot_just'' PNone\<rparr>)"
    using uvot_fields_known_mode [of request label key sj t2]
    by (simp add: UVOTXRTRequest_def)
qed

lemma basic_fields_with_field:
  assumes "k \<notin> {''source_type'', ''exposure_time'', ''monitoring_freq'', ''exposure_counts'',
     ''opt_mag'', ''opt_filt'', ''xrt_countrate'', ''exp_time_just'', ''immediate_objective''}"
  shows "basic_fields lib (with_field k v request) = basic_fields lib request"
proof -
  from assms have
    "''source_type'' \<noteq> k" "''exposure_time'' \<noteq> k" "''monitoring_freq'' \<noteq> k"
    "''exposure_counts'' \<noteq> k" "''opt_mag'' \<noteq> k" "''opt_filt'' \<noteq> k"
    "''xrt_countrate'' \<noteq> k" "''exp_time_just'' \<noteq> k" "''immediate_objective'' \<noteq> k"
    by auto
  then show ?thesis
    by (simp add: basic_fields_def getitem_def dict_get_def with_field_payload)
qed

lemma getitem_with_field:
  "k' \<noteq> k \<Longrightarrow> getitem (payload (with_field k v request)) k' = getitem (payload request) k'"
  by (simp add: getitem_def with_field_payload)

lemma urgency_and_obs_type_with_field:
  assumes "''urgency'' \<noteq> k" and "''obs_type'' \<noteq> k"
  shows "urgency_and_obs_type lib (with_field k v request) t = urgency_and_obs_type lib request t"
  unfolding urgency_and_obs_type_def converted_urgency_def
    getitem_with_field [OF assms(1)] getitem_with_field [OF assms(2)] ..

lemma str_int_digit [simp]: "str_int 1 = ''1''" "str_int 7 = ''7''"
  by (simp_all add: str_int_def str_nat_digit digit_char_def)

lemma int_of_str_3: "int_of_str ''3'' = Some 3"
  by (simp add: int_of_str_def strip_def is_space_def nat_of_digits_def is_digit_def
      digit_val_def)

lemma int_of_str_7: "int_of_str ''7'' = Some 7"
  by (simp add: int_of_str_def strip_def is_space_def nat_of_digits_def is_digit_def
      digit_val_def)

lemma int_of_str_x: "int_of_str ''x'' = None"
  by (simp add: int_of_str_def strip_def is_space_def nat_of_digits_def is_digit_def)

lemma too_request_basic: "\<exists>t. basic_fields swift_library too_request = Inr t"
  by (simp add: basic_fields_def getitem_def)

lemma too_request_urgency: "\<exists>t'. urgency_and_obs_type swift_library too_request t = Inr t'"
  by (simp add: urgency_and_obs_type_def converted_urgency_def getitem_def int_of_str_3
      obs_types_def)

lemma too_request_builds: "\<exists>too. UVOTXRTRequest swift_library too_request = Inr too"
proof -
  obtain t1 where t1: "basic_fields swift_library too_request = Inr t1"
    using too_request_basic by blast
  obtain t2 where t2: "urgency_and_obs_type swift_library too_request t1 = Inr t2"
    using too_request_urgency by blast
  have "(''0x9999'', ''0x9999 - Default (Filter of the day)'') \<in> set modes"
    by (simp add: modes_def)
  from modes_index [OF this] obtain i where
    "index_of (map PStr modes_values) (PStr ''0x9999 - Default (Filter of the day)'') = Some i"
    and "modes_keys ! i = ''0x9999''"
    by blast
  then have "\<exists>too. uvot_fields too_request t2 = Inr too"
    by (simp add: uvot_fields_def getitem_def)
  with t1 t2 show ?thesis
    by (simp add: UVOTXRTRequest_def)
qed

theorem monitoring_freq_days_witness:
  "UVOTXRTRequest swift_library (with_field ''monitoring_freq'' (PFloat (5 / 2)) too_request) =
     Inl (ValueError ''Unknown format code d for object of type float'')
   \<and> (\<exists>too. UVOTXRTRequest swift_library too_request = Inr too \<and> monitoring_freq too = PStr ''1 days'')"
proof -
  let ?r = "with_field ''monitoring_freq'' (PFloat (5 / 2)) too_request"
  have "\<exists>e. format_d (PFloat (5 / 2)) = Inl e \<and> UVOTXRTRequest swift_library ?r = Inl e"
    using monitoring_freq_days [where lib = swift_library and request = ?r
        and v = "PFloat (5 / 2)" and a = "PStr ''observer''" and b = "PStr ''s3cret''"
        and c = "PStr ''Optical fast transient''" and d = "PFloat 4000"]
    by (simp add: with_field_payload)
  then have a: "UVOTXRTRequest swift_library ?r =
      Inl (ValueError ''Unknown format code d for object of type float'')"
    by auto
  obtain too where too: "UVOTXRTRequest swift_library too_request = Inr too"
    using too_request_builds by blast
  with monitoring_freq_days [where lib = swift_library and request = too_request
      and v = "PInt 1" and too = too]
  have "monitoring_freq too = PStr ''1 days''"
    by simp
  with a too show ?thesis by blast
qed

lemma map_of_without:
  "map_of (filter (\<lambda>p. fst p \<noteq> k) ps) k' = (if k' = k then None else map_of ps k')"
  by (induction ps) auto

lemma without_field_payload:
  "map_of (payload (without_field k request)) k' =
     (if k' = k then None else map_of (payload request) k')"
  by (simp add: without_field_def map_of_without)

lemma without_field_others [simp]:
  "allocation (without_field k request) = allocation request"
  "obj (without_field k request) = obj request"
  by (simp_all add: without_field_def)

lemma swift_library_int_text:
  "int_text swift_library (PStr [CHR 0xA0, CHR ''3'']) = Some 3"
  by (simp add: swift_library_def)

lemma py_int_examples:
  "py_int uni (PStr ''3'') = Inr 3"
  "py_int uni (PStr ''7'') = Inr 7"
  "py_int uni (PStr ''x'') = Inl (ValueError ''invalid literal for int() with base 10'')"
  "py_int (int_text swift_library) (PStr [CHR 0xA0, CHR ''3'']) = Inr 3"
  by (simp_all add: int_of_str_3 int_of_str_7 int_of_str_x swift_library_int_text)

lemmas urgency_values =
  py_int_examples int_of_str_3 int_of_str_7 int_of_str_x swift_library_int_text

theorem urgency_range_witness:
  "(\<exists>too. UVOTXRTRequest swift_library too_request = Inr too \<and> urgency too = PInt 3)
   \<and> (\<exists>too. UVOTXRTRequest swift_library
               (with_field ''urgency'' (PStr [CHR 0xA0, CHR ''3'']) too_request) = Inr too
         \<and> urgency too = PInt 3)
   \<and> UVOTXRTRequest swift_library (with_field ''urgency'' (PStr ''x'') too_request) =
       Inl (ValueErrorFrom ''Could not convert urgency to a valid integer: ''
              (ValueError ''invalid literal for int() with base 10''))
   \<and> UVOTXRTRequest swift_library (with_field ''urgency'' (PStr ''7'') too_request) =
       Inl (ValueError ''urgency must be one of 0, 1, 2, 3, or 4, and not: 7'')"
proof -
  obtain too where too: "UVOTXRTRequest swift_library too_request = Inr too"
    using too_request_builds by blast
  with urgency_range [where lib = swift_library and request = too_request and too = too]
  have a: "urgency too = PInt 3"
    by (auto simp: urgency_values)
  let ?n = "with_field ''urgency'' (PStr [CHR 0xA0, CHR ''3'']) too_request"
  obtain t1 where t1: "basic_fields swift_library too_request = Inr t1"
    using too_request_basic by blast
  have "\<exists>t2. urgency_and_obs_type swift_library ?n t1 = Inr t2"
    by (simp add: urgency_and_obs_type_def converted_urgency_payload with_field_payload
        urgency_values getitem_def obs_types_def)
  then obtain t2 where t2: "urgency_and_obs_type swift_library ?n t1 = Inr t2"
    by blast
  have "(''0x9999'', ''0x9999 - Default (Filter of the day)'') \<in> set modes"
    by (simp add: modes_def)
  from modes_index [OF this] obtain i where
    "index_of (map PStr modes_values) (PStr ''0x9999 - Default (Filter of the day)'') = Some i"
    and "modes_keys ! i = ''0x9999''"
    by blast
  then have "\<exists>too. uvot_fields ?n t2 = Inr too"
    by (simp add: uvot_fields_def getitem_def with_field_payload)
  with t1 t2 obtain too' where too': "UVOTXRTRequest swift_library ?n = Inr too'"
    by (auto simp: UVOTXRTRequest_def basic_fields_with_field)
  with urgency_range [where lib = swift_library and request = ?n and too = too']
  have n: "urgency too' = PInt 3"
    by (auto simp: with_field_payload urgency_values)
  let ?x = "with_field ''urgency'' (PStr ''x'') too_request"
  have b: "UVOTXRTRequest swift_library ?x =
       Inl (ValueErrorFrom ''Could not convert urgency to a valid integer: ''
              (ValueError ''invalid literal for int() with base 10''))"
    using urgency_range [where lib = swift_library and request = ?x
        and a = "PStr ''observer''" and b = "PStr ''s3cret''"
        and c = "PStr ''Optical fast transient''" and d = "PFloat 4000" and m = "PInt 1"
        and n = "PInt 1" and k = 1 and j = "PStr ''4ks should suffice''"
        and ob = "PStr ''measure the X-ray emission''" and v = "PStr ''x''"
        and e = "ValueError ''invalid literal for int() with base 10''"]
    by (simp add: with_field_payload urgency_values)
  let ?s = "with_field ''urgency'' (PStr ''7'') too_request"
  have "UVOTXRTRequest swift_library ?s =
       Inl (ValueError (''urgency must be one of 0, 1, 2, 3, or 4, and not: '' @ str_int 7))"
    using urgency_range [where lib = swift_library and request = ?s
        and a = "PStr ''observer''" and b = "PStr ''s3cret''"
        and c = "PStr ''Optical fast transient''" and d = "PFloat 4000" and m = "PInt 1"
        and n = "PInt 1" and k = 1 and j = "PStr ''4ks should suffice''"
        and ob = "PStr ''measure the X-ray emission''" and v = "PStr ''7''" and u = 7]
    by (simp add: with_field_payload urgency_values)
  then have c: "UVOTXRTRequest swift_library ?s =
       Inl (ValueError ''urgency must be one of 0, 1, 2, 3, or 4, and not: 7'')"
    by simp
  from too a too' n b c show ?thesis by blast
qed

text \<open>
  The urgency is read on line 199, after the source type of line 186: a payload without a
  source type ends the build there, whatever its urgency.
\<close>

lemma urgency_read_after_source_type:
  "map_of (payload (without_field ''source_type'' (with_field ''urgency'' (PStr ''7'') too_request)))
     ''urgency'' = Some (PStr ''7'')
   \<and> py_int (int_text swift_library) (PStr ''7'') = Inr 7
   \<and> (7 :: int) \<notin> {0, 1, 2, 3, 4}
   \<and> UVOTXRTRequest swift_library
       (without_field ''source_type'' (with_field ''urgency'' (PStr ''7'') too_request)) =
       Inl (KeyError ''source_type'')
   \<and> \<not> is_ValueError (KeyError ''source_type'')"
proof -
  let ?r = "without_field ''source_type'' (with_field ''urgency'' (PStr ''7'') too_request)"
  have "basic_fields swift_library ?r = Inl (KeyError ''source_type'')"
    by (simp add: basic_fields_def getitem_def without_field_payload)
  then have "UVOTXRTRequest swift_library ?r = Inl (KeyError ''source_type'')"
    by (simp add: UVOTXRTRequest_def)
  moreover have "map_of (payload ?r) ''urgency'' = Some (PStr ''7'')"
    by (simp add: without_field_payload with_field_payload)
  ultimately show ?thesis
    by (simp add: urgency_values)
qed

lemma all_uv_mode: "(''0x30ed'', ''0x30ed - U+B+V+All UV'') \<in> set modes"
  by (simp add: modes_def)

lemma code_is_no_label: "PStr ''0x30ed'' \<notin> PStr ` set modes_values"
  by (simp add: modes_values_def modes_def image_iff)

lemma uv_request_stages:
  "\<exists>t1 t2. basic_fields swift_library uv_request = Inr t1 \<and> urgency_and_obs_type swift_library uv_request t1 = Inr t2
     \<and> basic_fields swift_library (with_field ''uvot_just'' v uv_request) = Inr t1
     \<and> urgency_and_obs_type swift_library (with_field ''uvot_just'' v uv_request) t1 = Inr t2
     \<and> basic_fields swift_library (with_field ''uvot_mode'' m too_request) = Inr t1
     \<and> urgency_and_obs_type swift_library (with_field ''uvot_mode'' m too_request) t1 = Inr t2"
proof -
  obtain t1 where t1: "basic_fields swift_library too_request = Inr t1"
    using too_request_basic by blast
  obtain t2 where t2: "urgency_and_obs_type swift_library too_request t1 = Inr t2"
    using too_request_urgency by blast
  from t1 t2 show ?thesis
    by (simp add: uv_request_def basic_fields_with_field urgency_and_obs_type_with_field)
qed

theorem uvot_mode_checked_witness:
  "UVOTXRTRequest swift_library (with_field ''uvot_mode'' (PStr ''0x30ed'') too_request) =
     Inl (ValueError ''tuple.index(x): x not in tuple'')
   \<and> UVOTXRTRequest swift_library uv_request = Inl (ValueError
        ''uvot_just is required when the UVOT mode select is 0x0270 (ToO Upload Mode).'')
   \<and> (\<exists>too. UVOTXRTRequest swift_library (with_field ''uvot_just'' (PStr ''map the SED'') uv_request) = Inr too
        \<and> uvot_mode too = PStr ''0x30ed'' \<and> uvot_just too = PStr ''map the SED'')"
proof -
  let ?bad = "with_field ''uvot_mode'' (PStr ''0x30ed'') too_request"
  let ?just = "with_field ''uvot_just'' (PStr ''map the SED'') uv_request"
  obtain t1 t2 where
    s: "basic_fields swift_library uv_request = Inr t1" "urgency_and_obs_type swift_library uv_request t1 = Inr t2" and
    j: "basic_fields swift_library ?just = Inr t1" "urgency_and_obs_type swift_library ?just t1 = Inr t2" and
    b: "basic_fields swift_library ?bad = Inr t1" "urgency_and_obs_type swift_library ?bad t1 = Inr t2"
    using uv_request_stages [of "PStr ''map the SED''" "PStr ''0x30ed''"] by blast
  have a: "UVOTXRTRequest swift_library ?bad = Inl (ValueError ''tuple.index(x): x not in tuple'')"
    using uvot_mode_checked [where lib = swift_library and request = ?bad
        and v = "PStr ''0x30ed''" and ?t1.0 = t1 and ?t2.0 = t2] b code_is_no_label
    by (simp add: with_field_payload)
  have c: "UVOTXRTRequest swift_library uv_request = Inl (ValueError
        ''uvot_just is required when the UVOT mode select is 0x0270 (ToO Upload Mode).'')"
    using uvot_mode_checked [where lib = swift_library and request = uv_request
        and ?t1.0 = t1 and ?t2.0 = t2 and label = "''0x30ed - U+B+V+All UV''"
        and key = "''0x30ed''"
        and sj = "PStr ''associate the transient with a relativistic explosion''"] s all_uv_mode
    by (simp add: uv_request_def with_field_payload dict_get_def)
  have "UVOTXRTRequest swift_library ?just =
      Inr (t2\<lparr>uvot_mode := PStr ''0x30ed'',
               science_just := PStr ''associate the transient with a relativistic explosion'',
               uvot_just := PStr ''map the SED''\<rparr>)"
    using uvot_mode_checked [where lib = swift_library and request = ?just
        and ?t1.0 = t1 and ?t2.0 = t2 and label = "''0x30ed - U+B+V+All UV''"
        and key = "''0x30ed''"
        and sj = "PStr ''associate the transient with a relativistic explosion''"] j all_uv_mode
    by (simp add: uv_request_def with_field_payload dict_get_def)
  then have "\<exists>too. UVOTXRTRequest swift_library ?just = Inr too
        \<and> uvot_mode too = PStr ''0x30ed'' \<and> uvot_just too = PStr ''map the SED''"
    by simp
  with a c show ?thesis by blast
qed

theorem empty_uvot_just_counterexample:
  "map_of (payload (with_field ''uvot_just'' (PStr '''') uv_request)) ''uvot_mode'' =
     Some (PStr ''0x30ed - U+B+V+All UV'')
   \<and> (''0x30ed'', ''0x30ed - U+B+V+All UV'') \<in> set modes
   \<and> map_of (payload (with_field ''uvot_just'' (PStr '''') uv_request)) ''uvot_just'' =
     Some (PStr '''')
   \<and> UVOTXRTRequest swift_library (with_field ''uvot_just'' (PStr '''') uv_request) = Inl (ValueError
        ''uvot_just is required when the UVOT mode select is 0x0270 (ToO Upload Mode).'')"
proof -
  let ?r = "with_field ''uvot_just'' (PStr '''') uv_request"
  obtain t1 t2 where
    j: "basic_fields swift_library ?r = Inr t1" "urgency_and_obs_type swift_library ?r t1 = Inr t2"
    using uv_request_stages [of "PStr ''''"] by blast
  have m: "map_of (payload ?r) ''uvot_mode'' = Some (PStr ''0x30ed - U+B+V+All UV'')"
    by (simp add: uv_request_def with_field_payload)
  have u: "map_of (payload ?r) ''uvot_just'' = Some (PStr '''')"
    by (simp add: with_field_payload)
  have s: "map_of (payload ?r) ''science_just'' =
      Some (PStr ''associate the transient with a relativistic explosion'')"
    by (simp add: uv_request_def with_field_payload)
  have "uvot_fields ?r t2 = Inl (ValueError
        ''uvot_just is required when the UVOT mode select is 0x0270 (ToO Upload Mode).'')"
    using uvot_fields_known_mode [OF m all_uv_mode _ s, of t2] u
    by (simp add: dict_get_def)
  with j have "UVOTXRTRequest swift_library ?r = Inl (ValueError
        ''uvot_just is required when the UVOT mode select is 0x0270 (ToO Upload Mode).'')"
    by (simp add: UVOTXRTRequest_def)
  with m u all_uv_mode show ?thesis by blast
qed

section \<open>Fetching results\<close>

text \<open>
  C8. For a request of type \<^verbatim>\<open>XRT API\<close> whose job state can be read back from the
  stored transaction and whose completeness check answers false, \<^verbatim>\<open>get\<close> raises the
  \<^verbatim>\<open>ValueError\<close> that tells the caller to come back later, and it leaves the request
  (its status included) and the world (no comment added, nothing committed, no signal
  pushed) exactly as they were.
\<close>

theorem get_result_not_ready:
  "altdata (allocation request) \<noteq> []
   \<and> map_of (payload request) ''request_type'' = Some (PStr ''XRT API'')
   \<and> job_state lib request = Inr swiftreq
   \<and> complete lib swiftreq = Inr False \<longrightarrow>
   get lib kwargs request w =
     (Some (ValueError ''Result not yet available. Please try again later.''), request, w)"
  by (simp add: get_def get_result_def getitem_def)

lemma xrt_request_payload [simp]:
  "map_of (payload xrt_request) ''request_type'' = Some (PStr ''XRT API'')"
  "map_of (payload xrt_request) ''T0'' = Some (PStr ''2024-01-02 03:04:05'')"
  "map_of (payload xrt_request) ''detornot'' = Some (PBool True)"
  "map_of (payload xrt_request) ''centMeth'' = Some (PStr ''simple'')"
  "map_of (payload xrt_request) ''detMeth'' = Some (PStr ''simple'')"
  "map_of (payload xrt_request) ''poserr'' = Some (PInt 1)"
  "map_of (altdata (allocation xrt_request)) ''XRT_UserID'' = Some (PStr ''observer@example.org'')"
  "map_of (altdata (allocation xrt_request)) ''notification_type'' = None"
  "altdata (allocation xrt_request) \<noteq> []"
  by (simp_all add: xrt_request_def too_request_def swift_allocation_def)

lemma swift_library_fields [simp]:
  "Time_iso swift_library = (\<lambda>v. Inr 2460000)"
  "XRTProductRequest swift_library = (\<lambda>u. None)"
  "setGlobalPars swift_library = (\<lambda>u pars. None)"
  "complete swift_library = (\<lambda>x. Inr False)"
  "post swift_library = answer 200 ''OK'' accepted_body"
  "json_loads swift_library accepted_body =
     Some (PDict [(''OK'', PInt 1), (''JobID'', PInt 42),
                  (''URL'', PStr ''https://www.swift.ac.uk/user_objects/tprods/USERPROD_42''),
                  (''jobPars'', PDict [])])"
  "ObsQuery swift_library = (\<lambda>q. [])"
  "request_notify_by_slack swift_library = (\<lambda>r. None)"
  "request_notify_by_email swift_library = (\<lambda>r. None)"
  "validate swift_library = (\<lambda>too. Inr True)"
  by (simp_all add: swift_library_def)

lemma xrt_request_builds: "\<exists>swiftreq. XRTAPIRequest swift_library xrt_request = Inr swiftreq"
  by (simp add: XRTAPIRequest_def getitem_def Let_def)

lemma xrt_request_job_state: "\<exists>swiftreq. job_state swift_library xrt_request = Inr swiftreq"
proof -
  obtain x where x: "XRTAPIRequest swift_library xrt_request = Inr x"
    using xrt_request_builds by blast
  have t: "transactions xrt_request =
      [\<lparr>tx_request =
          PDict [(''url'', PStr ''https://www.swift.ac.uk/user_objects/run_userobject.php'')],
        tx_response = PDict [(''status_code'', PInt 200), (''content'', PStr accepted_body)],
        tx_followup_request = 11,
        initiator_id = 3\<rparr>]"
    by (simp add: xrt_request_def)
  show ?thesis
    by (simp add: job_state_def t py_getitem_def getitem_def loads_def x)
qed

theorem get_result_not_ready_witness:
  "get swift_library [(''refresh_source'', PBool True)] xrt_request empty_world =
     (Some (ValueError ''Result not yet available. Please try again later.''),
      xrt_request, empty_world)"
proof -
  obtain swiftreq where "job_state swift_library xrt_request = Inr swiftreq"
    using xrt_request_job_state by blast
  with get_result_not_ready [of xrt_request swift_library swiftreq
      "[(''refresh_source'', PBool True)]" empty_world]
  show ?thesis by simp
qed

lemma refresh_pushes:
  "refresh kwargs request w =
     w\<lparr>flow_pushed := flow_pushed w
          @ (if truthy (dict_get kwargs ''refresh_source'' (PBool False))
             then [REFRESH_SOURCE (internal_key (obj request))] else [])
          @ (if truthy (dict_get kwargs ''refresh_requests'' (PBool False))
             then [REFRESH_FOLLOWUP_REQUESTS (last_modified_by_id request)] else [])\<rparr>"
  by (simp add: refresh_def Let_def)

text \<open>
  C9. With credentials in the allocation and a request type that is there but is neither
  \<^verbatim>\<open>XRT API\<close> nor \<^verbatim>\<open>XRT/UVOT/BAT Data\<close>, \<^verbatim>\<open>get\<close> raises nothing, returns the request
  as it was (same status), and changes nothing in the world but the list of pushed signals,
  to which it appends the refresh signals the caller asked for.
\<close>

theorem get_other_request_type:
  "altdata (allocation request) \<noteq> []
   \<and> map_of (payload request) ''request_type'' = Some request_type
   \<and> request_type \<noteq> PStr ''XRT API''
   \<and> request_type \<noteq> PStr ''XRT/UVOT/BAT Data'' \<longrightarrow>
   get lib kwargs request w =
     (None, request,
      w\<lparr>flow_pushed := flow_pushed w
          @ (if truthy (dict_get kwargs ''refresh_source'' (PBool False))
             then [REFRESH_SOURCE (internal_key (obj request))] else [])
          @ (if truthy (dict_get kwargs ''refresh_requests'' (PBool False))
             then [REFRESH_FOLLOWUP_REQUESTS (last_modified_by_id request)] else [])\<rparr>)"
  by (simp add: get_def get_result_def getitem_def refresh_pushes)

lemma too_request_fields [simp]:
  "internal_key (obj too_request) = ''a1b2c3''"
  "obj_id (obj too_request) = ''ZTF24aaaaaaa''"
  "last_modified_by_id too_request = 3"
  "request_id too_request = 11"
  by (simp_all add: too_request_def)

theorem get_other_request_type_witness:
  "get swift_library [(''refresh_source'', PBool True)] too_request empty_world =
     (None, too_request, empty_world\<lparr>flow_pushed := [REFRESH_SOURCE ''a1b2c3'']\<rparr>)
   \<and> get swift_library [] too_request empty_world = (None, too_request, empty_world)"
  using get_other_request_type [of too_request "PStr ''XRT/UVOT ToO''" swift_library
      "[(''refresh_source'', PBool True)]" empty_world]
    get_other_request_type [of too_request "PStr ''XRT/UVOT ToO''" swift_library "[]" empty_world]
  by (simp add: dict_get_def empty_world_def)

section \<open>Submission\<close>

lemma session_added_refresh [simp]: "session_added (refresh kwargs request w) = session_added w"
  by (simp add: refresh_pushes)

lemma session_added_notify [simp]: "session_added (notify lib request w) = session_added w"
  by (simp add: notify_def Let_def split: option.splits)

lemma after_submit_raised [simp]:
  "after_submit lib kwargs (Some e, request, w) = (Some e, request, w)"
  by (simp add: after_submit_def)

lemma after_submit_returned [simp]:
  "after_submit lib kwargs (None, request, w) =
     (None, request, notify lib request (refresh kwargs request w))"
  by (simp add: after_submit_def)

lemma submit_too_outcome:
  "(\<exists>e. submit_too lib request w = (Some e, request, w))
   \<or> (\<exists>too r. UVOTXRTRequest lib request = Inr too
        \<and> post lib \<lparr>url = API_URL lib, form_data = PDict [(''jwt'', jwt lib too)],
                     json_body = PNone\<rparr> = Inr r
        \<and> submit_too lib request w =
            (None,
             request\<lparr>status := (if status_code r = 200 then ''submitted''
                else ''rejected: '' @ repr lib (PBytes (content r)))\<rparr>,
             (if status_code r = 200 then w
              else w\<lparr>logged := logged w @
                       [(''Failed to submit Swift request for ''
                           @ str_int (request_id request) @ '' (obj ''
                           @ obj_id (obj request) @ ''): '' @ repr lib (PBytes (content r)), None)],
                     flow_pushed := flow_pushed w @
                       [SHOW_NOTIFICATION (last_modified_by_id request)
                          (''Failed to submit Swift request: '' @ repr lib (PBytes (content r)))]\<rparr>)
             \<lparr>session_added := session_added w @
                [Transaction \<lparr>tx_request = serialize_requests_request lib (sent r),
                   tx_response = serialize_requests_response lib r,
                   tx_followup_request = request_id request,
                   initiator_id = last_modified_by_id request\<rparr>]\<rparr>))"
proof (cases "UVOTXRTRequest lib request")
  case (Inl e)
  then show ?thesis by (simp add: submit_too_def)
next
  case (Inr too)
  let ?q = "\<lparr>url = API_URL lib, form_data = PDict [(''jwt'', jwt lib too)], json_body = PNone\<rparr>"
  show ?thesis
  proof (cases "validate lib too")
    case (Inl e)
    with Inr show ?thesis by (simp add: submit_too_def)
  next
    case v: (Inr checked)
    show ?thesis
    proof (cases "post lib ?q")
      case (Inl e)
      with Inr v show ?thesis by (simp add: submit_too_def)
    next
      case r: (Inr r)
      from Inr v r have "submit_too lib request w =
            (None,
             request\<lparr>status := (if status_code r = 200 then ''submitted''
                else ''rejected: '' @ repr lib (PBytes (content r)))\<rparr>,
             (if status_code r = 200 then w
              else w\<lparr>logged := logged w @
                       [(''Failed to submit Swift request for ''
                           @ str_int (request_id request) @ '' (obj ''
                           @ obj_id (obj request) @ ''): '' @ repr lib (PBytes (content r)), None)],
                     flow_pushed := flow_pushed w @
                       [SHOW_NOTIFICATION (last_modified_by_id request)
                          (''Failed to submit Swift request: '' @ repr lib (PBytes (content r)))]\<rparr>)
             \<lparr>session_added := session_added w @
                [Transaction \<lparr>tx_request = serialize_requests_request lib (sent r),
                   tx_response = serialize_requests_response lib r,
                   tx_followup_request = request_id request,
                   initiator_id = last_modified_by_id request\<rparr>]\<rparr>)"
        by (simp add: submit_too_def session_add_def FacilityTransaction_def Let_def)
      with Inr r show ?thesis by blast
    qed
  qed
qed

lemma submit_xrt_outcome:
  "(\<exists>e. submit_xrt lib request w = (Some e, request, w))
   \<or> (\<exists>swiftreq r new_status. XRTAPIRequest lib request = Inr swiftreq
        \<and> post lib \<lparr>url = XRT_URL lib, form_data = PNone,
                     json_body = getJSONDict lib swiftreq\<rparr> = Inr r
        \<and> submit_xrt lib request w =
            (None, request\<lparr>status := new_status\<rparr>,
             w\<lparr>session_added := session_added w @
                [Transaction \<lparr>tx_request = serialize_requests_request lib (sent r),
                   tx_response = serialize_requests_response lib r,
                   tx_followup_request = request_id request,
                   initiator_id = last_modified_by_id request\<rparr>]\<rparr>))"
proof (cases "XRTAPIRequest lib request")
  case (Inl e)
  then show ?thesis by (simp add: submit_xrt_def)
next
  case (Inr swiftreq)
  let ?q = "\<lparr>url = XRT_URL lib, form_data = PNone, json_body = getJSONDict lib swiftreq\<rparr>"
  show ?thesis
  proof (cases "post lib ?q")
    case (Inl e)
    with Inr show ?thesis by (simp add: submit_xrt_def)
  next
    case r: (Inr r)
    show ?thesis
    proof (cases "loads lib (PStr (resp_text r))")
      case (Inl e)
      with Inr r show ?thesis by (simp add: submit_xrt_def)
    next
      case d: (Inr returnedData)
      let ?st = "if status_code r \<noteq> 200 then Inr (''rejected: '' @ reason r)
          else exn_bind (py_getitem returnedData ''OK'') (\<lambda>ok.
            if py_eq_zero ok then
              exn_bind (py_getitem returnedData ''ERROR'') (\<lambda>err.
              exn_bind (py_getitem returnedData ''listErr'') (\<lambda>listErr.
              Inr (''rejected: ('' @ repr lib err @ '', '' @ repr lib listErr @ '')'')))
            else Inr ''submitted'')"
      show ?thesis
      proof (cases ?st)
        case (Inl e)
        with Inr r d have "submit_xrt lib request w = (Some e, request, w)"
          by (simp add: submit_xrt_def)
        then show ?thesis by blast
      next
        case (Inr new_status)
        with \<open>XRTAPIRequest lib request = Inr swiftreq\<close> r d
        have "submit_xrt lib request w =
            (None, request\<lparr>status := new_status\<rparr>,
             w\<lparr>session_added := session_added w @
                [Transaction \<lparr>tx_request = serialize_requests_request lib (sent r),
                   tx_response = serialize_requests_response lib r,
                   tx_followup_request = request_id request,
                   initiator_id = last_modified_by_id request\<rparr>]\<rparr>)"
          by (simp add: submit_xrt_def session_add_def FacilityTransaction_def)
        with \<open>XRTAPIRequest lib request = Inr swiftreq\<close> r show ?thesis by blast
      qed
    qed
  qed
qed

lemma submit_data_outcome:
  "(\<exists>e. submit_data lib request w = (Some e, request, w))
   \<or> (\<exists>start_date end_date.
        map_of (payload request) ''start_date'' = Some start_date
        \<and> map_of (payload request) ''end_date'' = Some end_date
        \<and> submit_data lib request w =
            (None,
             request\<lparr>status := ''Number of observations: '' @
                str_nat (length (ObsQuery lib
                  \<lparr>q_ra = obj_ra (obj request), q_dec = obj_dec (obj request),
                   q_radius = PFloat (5 / 60), q_begin = start_date, q_end = end_date\<rparr>))\<rparr>,
             w))"
proof (cases "map_of (payload request) ''start_date''")
  case None
  then show ?thesis
    by (simp add: submit_data_def UVOTXRTBATDataRequest_def getitem_def Let_def)
next
  case s: (Some start_date)
  show ?thesis
  proof (cases "map_of (payload request) ''end_date''")
    case None
    with s show ?thesis
      by (simp add: submit_data_def UVOTXRTBATDataRequest_def getitem_def Let_def)
  next
    case (Some end_date)
    with s show ?thesis
      by (simp add: submit_data_def UVOTXRTBATDataRequest_def getitem_def Let_def)
  qed
qed

lemma submit_dispatch:
  assumes "altdata (allocation request) \<noteq> []"
    and "map_of (payload request) ''request_type'' = Some request_type"
  shows "submit lib kwargs request w =
     after_submit lib kwargs
       (if request_type = PStr ''XRT/UVOT ToO'' then submit_too lib request w
        else if request_type = PStr ''XRT API'' then submit_xrt lib request w
        else if request_type = PStr ''XRT/UVOT/BAT Data'' then submit_data lib request w
        else (Some (ValueError ''Invalid request type.''), request, w))"
  using assms by (simp add: submit_def submit_request_def getitem_def)

text \<open>
  C1. Take a \<^verbatim>\<open>submit\<close> call on a request with credentials and a request type. For
  \<^verbatim>\<open>XRT/UVOT ToO\<close> and \<^verbatim>\<open>XRT API\<close> there are two outcomes. Either the call returns:
  then the payload was built, the request made of it was posted to the endpoint of that
  type and answered, the status of the request, and nothing else of it, has been assigned
  (for a ToO \<^verbatim>\<open>submitted\<close> on code 200 and \<^verbatim>\<open>rejected: \<close> with the body otherwise), and
  exactly one object has been added to the session, the transaction made of the serialized
  request and the serialized response of that exchange. Or the call raises: then neither
  the request nor the world has changed, so there is no status mutation without its
  transaction and no transaction without a status mutation. For \<^verbatim>\<open>XRT/UVOT/BAT Data\<close>
  nothing is ever added to the session, and a call that returns has set the status to
  \<^verbatim>\<open>Number of observations: \<close> followed by the decimal number of rows that the archive
  answers to the query for the position of the object, the radius 5/60 and the start and
  end dates of the payload.
\<close>

theorem submit_records_exchange:
  "altdata (allocation request) \<noteq> []
   \<and> map_of (payload request) ''request_type'' = Some request_type
   \<and> submit lib kwargs request w = (e, request', w') \<longrightarrow>
   (request_type = PStr ''XRT/UVOT ToO'' \<longrightarrow>
      (e = None
       \<and> (\<exists>too r. UVOTXRTRequest lib request = Inr too
            \<and> post lib \<lparr>url = API_URL lib, form_data = PDict [(''jwt'', jwt lib too)],
                         json_body = PNone\<rparr> = Inr r
            \<and> request' = request\<lparr>status := (if status_code r = 200 then ''submitted''
                  else ''rejected: '' @ repr lib (PBytes (content r)))\<rparr>
            \<and> session_added w' = session_added w @
                 [Transaction \<lparr>tx_request = serialize_requests_request lib (sent r),
                    tx_response = serialize_requests_response lib r,
                    tx_followup_request = request_id request,
                    initiator_id = last_modified_by_id request\<rparr>]))
      \<or> (e \<noteq> None \<and> request' = request \<and> w' = w))
   \<and> (request_type = PStr ''XRT API'' \<longrightarrow>
      (e = None
       \<and> (\<exists>swiftreq r. XRTAPIRequest lib request = Inr swiftreq
            \<and> post lib \<lparr>url = XRT_URL lib, form_data = PNone,
                         json_body = getJSONDict lib swiftreq\<rparr> = Inr r
            \<and> request' = request\<lparr>status := status request'\<rparr>
            \<and> session_added w' = session_added w @
                 [Transaction \<lparr>tx_request = serialize_requests_request lib (sent r),
                    tx_response = serialize_requests_response lib r,
                    tx_followup_request = request_id request,
                    initiator_id = last_modified_by_id request\<rparr>]))
      \<or> (e \<noteq> None \<and> request' = request \<and> w' = w))
   \<and> (request_type = PStr ''XRT/UVOT/BAT Data'' \<longrightarrow>
      session_added w' = session_added w
      \<and> ((e = None
           \<and> (\<exists>start_date end_date.
                map_of (payload request) ''start_date'' = Some start_date
                \<and> map_of (payload request) ''end_date'' = Some end_date
                \<and> request' = request
                     \<lparr>status := ''Number of observations: '' @
                        str_nat (length (ObsQuery lib
                          \<lparr>q_ra = obj_ra (obj request), q_dec = obj_dec (obj request),
                           q_radius = PFloat (5 / 60), q_begin = start_date,
                           q_end = end_date\<rparr>))\<rparr>))
          \<or> (e \<noteq> None \<and> request' = request \<and> w' = w)))"
proof (intro impI conjI)
  assume h: "altdata (allocation request) \<noteq> []
   \<and> map_of (payload request) ''request_type'' = Some request_type
   \<and> submit lib kwargs request w = (e, request', w')"
  assume too: "request_type = PStr ''XRT/UVOT ToO''"
  from h submit_dispatch [of request request_type lib kwargs w]
  have "after_submit lib kwargs
       (if request_type = PStr ''XRT/UVOT ToO'' then submit_too lib request w
        else if request_type = PStr ''XRT API'' then submit_xrt lib request w
        else if request_type = PStr ''XRT/UVOT/BAT Data'' then submit_data lib request w
        else (Some (ValueError ''Invalid request type.''), request, w)) = (e, request', w')"
    by simp
  with too have s: "after_submit lib kwargs (submit_too lib request w) = (e, request', w')"
    by simp
  from submit_too_outcome [of lib request w]
  show "(e = None
       \<and> (\<exists>too r. UVOTXRTRequest lib request = Inr too
            \<and> post lib \<lparr>url = API_URL lib, form_data = PDict [(''jwt'', jwt lib too)],
                         json_body = PNone\<rparr> = Inr r
            \<and> request' = request\<lparr>status := (if status_code r = 200 then ''submitted''
                  else ''rejected: '' @ repr lib (PBytes (content r)))\<rparr>
            \<and> session_added w' = session_added w @
                 [Transaction \<lparr>tx_request = serialize_requests_request lib (sent r),
                    tx_response = serialize_requests_response lib r,
                    tx_followup_request = request_id request,
                    initiator_id = last_modified_by_id request\<rparr>]))
      \<or> (e \<noteq> None \<and> request' = request \<and> w' = w)"
  proof (elim disjE exE conjE)
    fix x assume "submit_too lib request w = (Some x, request, w)"
    with s show ?thesis by auto
  next
    fix t r
    assume b: "UVOTXRTRequest lib request = Inr t"
      and p: "post lib \<lparr>url = API_URL lib, form_data = PDict [(''jwt'', jwt lib t)],
                     json_body = PNone\<rparr> = Inr r"
      and o: "submit_too lib request w =
            (None,
             request\<lparr>status := (if status_code r = 200 then ''submitted''
                else ''rejected: '' @ repr lib (PBytes (content r)))\<rparr>,
             (if status_code r = 200 then w
              else w\<lparr>logged := logged w @
                       [(''Failed to submit Swift request for ''
                           @ str_int (request_id request) @ '' (obj ''
                           @ obj_id (obj request) @ ''): '' @ repr lib (PBytes (content r)), None)],
                     flow_pushed := flow_pushed w @
                       [SHOW_NOTIFICATION (last_modified_by_id request)
                          (''Failed to submit Swift request: '' @ repr lib (PBytes (content r)))]\<rparr>)
             \<lparr>session_added := session_added w @
                [Transaction \<lparr>tx_request = serialize_requests_request lib (sent r),
                   tx_response = serialize_requests_response lib r,
                   tx_followup_request = request_id request,
                   initiator_id = last_modified_by_id request\<rparr>]\<rparr>)"
    from s o have "e = None"
      and "request' = request\<lparr>status := (if status_code r = 200 then ''submitted''
                else ''rejected: '' @ repr lib (PBytes (content r)))\<rparr>"
      and "session_added w' = session_added w @
                [Transaction \<lparr>tx_request = serialize_requests_request lib (sent r),
                   tx_response = serialize_requests_response lib r,
                   tx_followup_request = request_id request,
                   initiator_id = last_modified_by_id request\<rparr>]"
      by (auto split: if_splits)
    with b p show ?thesis
      by (intro disjI1 conjI exI [of _ t] exI [of _ r]) simp_all
  qed
next
  assume h: "altdata (allocation request) \<noteq> []
   \<and> map_of (payload request) ''request_type'' = Some request_type
   \<and> submit lib kwargs request w = (e, request', w')"
  assume xrt: "request_type = PStr ''XRT API''"
  from h submit_dispatch [of request request_type lib kwargs w]
  have "after_submit lib kwargs
       (if request_type = PStr ''XRT/UVOT ToO'' then submit_too lib request w
        else if request_type = PStr ''XRT API'' then submit_xrt lib request w
        else if request_type = PStr ''XRT/UVOT/BAT Data'' then submit_data lib request w
        else (Some (ValueError ''Invalid request type.''), request, w)) = (e, request', w')"
    by simp
  with xrt have s: "after_submit lib kwargs (submit_xrt lib request w) = (e, request', w')"
    by simp
  from submit_xrt_outcome [of lib request w]
  show "(e = None
       \<and> (\<exists>swiftreq r. XRTAPIRequest lib request = Inr swiftreq
            \<and> post lib \<lparr>url = XRT_URL lib, form_data = PNone,
                         json_body = getJSONDict lib swiftreq\<rparr> = Inr r
            \<and> request' = request\<lparr>status := status request'\<rparr>
            \<and> session_added w' = session_added w @
                 [Transaction \<lparr>tx_request = serialize_requests_request lib (sent r),
                    tx_response = serialize_requests_response lib r,
                    tx_followup_request = request_id request,
                    initiator_id = last_modified_by_id request\<rparr>]))
      \<or> (e \<noteq> None \<and> request' = request \<and> w' = w)"
  proof (elim disjE exE conjE)
    fix x assume "submit_xrt lib request w = (Some x, request, w)"
    with s show ?thesis by auto
  next
    fix x r new_status
    assume b: "XRTAPIRequest lib request = Inr x"
      and p: "post lib \<lparr>url = XRT_URL lib, form_data = PNone,
                     json_body = getJSONDict lib x\<rparr> = Inr r"
      and o: "submit_xrt lib request w =
            (None, request\<lparr>status := new_status\<rparr>,
             w\<lparr>session_added := session_added w @
                [Transaction \<lparr>tx_request = serialize_requests_request lib (sent r),
                   tx_response = serialize_requests_response lib r,
                   tx_followup_request = request_id request,
                   initiator_id = last_modified_by_id request\<rparr>]\<rparr>)"
    from s o have "e = None" and "request' = request\<lparr>status := new_status\<rparr>"
      and "session_added w' = session_added w @
                [Transaction \<lparr>tx_request = serialize_requests_request lib (sent r),
                   tx_response = serialize_requests_response lib r,
                   tx_followup_request = request_id request,
                   initiator_id = last_modified_by_id request\<rparr>]"
      by auto
    with b p show ?thesis
      by (intro disjI1 conjI exI [of _ x] exI [of _ r]) simp_all
  qed
next
  assume h: "altdata (allocation request) \<noteq> []
   \<and> map_of (payload request) ''request_type'' = Some request_type
   \<and> submit lib kwargs request w = (e, request', w')"
  assume data: "request_type = PStr ''XRT/UVOT/BAT Data''"
  from h submit_dispatch [of request request_type lib kwargs w]
  have "after_submit lib kwargs
       (if request_type = PStr ''XRT/UVOT ToO'' then submit_too lib request w
        else if request_type = PStr ''XRT API'' then submit_xrt lib request w
        else if request_type = PStr ''XRT/UVOT/BAT Data'' then submit_data lib request w
        else (Some (ValueError ''Invalid request type.''), request, w)) = (e, request', w')"
    by simp
  with data have s: "after_submit lib kwargs (submit_data lib request w) = (e, request', w')"
    by simp
  from submit_data_outcome [of lib request w] s
  show "session_added w' = session_added w"
    by auto
  from submit_data_outcome [of lib request w]
  show "(e = None
           \<and> (\<exists>start_date end_date.
                map_of (payload request) ''start_date'' = Some start_date
                \<and> map_of (payload request) ''end_date'' = Some end_date
                \<and> request' = request
                     \<lparr>status := ''Number of observations: '' @
                        str_nat (length (ObsQuery lib
                          \<lparr>q_ra = obj_ra (obj request), q_dec = obj_dec (obj request),
                           q_radius = PFloat (5 / 60), q_begin = start_date,
                           q_end = end_date\<rparr>))\<rparr>))
          \<or> (e \<noteq> None \<and> request' = request \<and> w' = w)"
  proof (elim disjE exE conjE)
    fix x assume "submit_data lib request w = (Some x, request, w)"
    with s show ?thesis by auto
  next
    fix sd ed
    assume "map_of (payload request) ''start_date'' = Some sd"
      and "map_of (payload request) ''end_date'' = Some ed"
      and "submit_data lib request w =
            (None,
             request\<lparr>status := ''Number of observations: '' @
                str_nat (length (ObsQuery lib
                  \<lparr>q_ra = obj_ra (obj request), q_dec = obj_dec (obj request),
                   q_radius = PFloat (5 / 60), q_begin = sd, q_end = ed\<rparr>))\<rparr>,
             w)"
    with s show ?thesis
      by (intro disjI1) auto
  qed
qed

lemma submit_xrt_decoded:
  assumes "XRTAPIRequest lib request = Inr swiftreq"
    and "post lib \<lparr>url = XRT_URL lib, form_data = PNone,
           json_body = getJSONDict lib swiftreq\<rparr> = Inr r"
    and "json_loads lib (resp_text r) = Some returnedData"
  shows "(status_code r \<noteq> 200 \<longrightarrow>
            fst (snd (submit_xrt lib request w)) = request\<lparr>status := ''rejected: '' @ reason r\<rparr>)
     \<and> (status_code r = 200 \<and> py_getitem returnedData ''OK'' = Inr ok \<and> py_eq_zero ok
          \<and> py_getitem returnedData ''ERROR'' = Inr err
          \<and> py_getitem returnedData ''listErr'' = Inr listErr \<longrightarrow>
            fst (snd (submit_xrt lib request w)) =
              request\<lparr>status := ''rejected: ('' @ repr lib err @ '', '' @ repr lib listErr @ '')''\<rparr>)
     \<and> (status_code r = 200 \<and> py_getitem returnedData ''OK'' = Inr ok \<and> \<not> py_eq_zero ok \<longrightarrow>
            fst (snd (submit_xrt lib request w)) = request\<lparr>status := ''submitted''\<rparr>)"
  using assms by (simp add: submit_xrt_def loads_def)

lemma submit_xrt_undecoded:
  assumes "XRTAPIRequest lib request = Inr swiftreq"
    and "post lib \<lparr>url = XRT_URL lib, form_data = PNone,
           json_body = getJSONDict lib swiftreq\<rparr> = Inr r"
    and "json_loads lib (resp_text r) = None"
  shows "submit_xrt lib request w = (Some JSONDecodeError, request, w)"
  using assms by (simp add: submit_xrt_def loads_def)

lemma gateway_library_fields [simp]:
  "Time_iso gateway_library = (\<lambda>v. Inr 2460000)"
  "XRTProductRequest gateway_library = (\<lambda>u. None)"
  "setGlobalPars gateway_library = (\<lambda>u pars. None)"
  "post gateway_library = answer 502 ''Bad Gateway'' error_page"
  "json_loads gateway_library error_page = None"
  by (simp_all add: gateway_library_def swift_library_def error_page_def accepted_body_def
      refused_body_def)

lemma xrt_request_builds_gateway:
  "\<exists>swiftreq. XRTAPIRequest gateway_library xrt_request = Inr swiftreq"
  by (simp add: XRTAPIRequest_def getitem_def Let_def)

text \<open>
  C2, at an input where the code leaves the claim. The endpoint answers 502 with the error
  page of a web server. The status code is not 200, so the status should become
  \<^verbatim>\<open>rejected: Bad Gateway\<close>; but the body is decoded first (line 559), the decoding
  raises, and \<^verbatim>\<open>submit\<close> ends there: the status is still \<^verbatim>\<open>pending\<close> and no
  transaction is recorded.
\<close>

theorem submit_xrt_error_page:
  "submit gateway_library [] xrt_request empty_world =
     (Some JSONDecodeError, xrt_request, empty_world)
   \<and> status xrt_request = ''pending''"
proof -
  obtain swiftreq where x: "XRTAPIRequest gateway_library xrt_request = Inr swiftreq"
    using xrt_request_builds_gateway by blast
  let ?q = "\<lparr>url = XRT_URL gateway_library, form_data = PNone,
      json_body = getJSONDict gateway_library swiftreq\<rparr>"
  let ?r = "\<lparr>status_code = 502, reason = ''Bad Gateway'', resp_text = error_page,
      content = error_page, sent = ?q\<rparr>"
  have p: "post gateway_library ?q = Inr ?r"
    by (simp add: answer_def)
  have j: "json_loads gateway_library (resp_text ?r) = None"
    by simp
  have "submit_xrt gateway_library xrt_request empty_world =
      (Some JSONDecodeError, xrt_request, empty_world)"
    by (rule submit_xrt_undecoded [OF x p j])
  then have "submit gateway_library [] xrt_request empty_world =
     (Some JSONDecodeError, xrt_request, empty_world)"
    by (simp add: submit_dispatch [of xrt_request "PStr ''XRT API''"])
  moreover have "status xrt_request = ''pending''"
    by (simp add: xrt_request_def too_request_def)
  ultimately show ?thesis by simp
qed

text \<open>
  C3, as the code has it. With credentials in the allocation: a request whose payload has
  no request type makes \<^verbatim>\<open>submit\<close> fail with the \<^verbatim>\<open>KeyError\<close> of the lookup (not
  with a \<^verbatim>\<open>ValueError\<close>); a request type that is none of the three values makes it fail
  with \<^verbatim>\<open>ValueError("Invalid request type.")\<close>; in both cases nothing has changed. For
  each of the three values the outcome of \<^verbatim>\<open>submit\<close> is the outcome of the branch of
  that value, which starts with the builder of that value, and the final \<^verbatim>\<open>raise\<close> is
  not reached.
\<close>

theorem submit_request_type:
  "altdata (allocation request) \<noteq> [] \<longrightarrow>
   (map_of (payload request) ''request_type'' = None \<longrightarrow>
      submit lib kwargs request w = (Some (KeyError ''request_type''), request, w))
   \<and> (\<forall>request_type. map_of (payload request) ''request_type'' = Some request_type \<longrightarrow>
        (request_type \<notin> {PStr ''XRT/UVOT ToO'', PStr ''XRT API'', PStr ''XRT/UVOT/BAT Data''} \<longrightarrow>
           submit lib kwargs request w = (Some (ValueError ''Invalid request type.''), request, w))
      \<and> (request_type = PStr ''XRT/UVOT ToO'' \<longrightarrow>
           submit lib kwargs request w = after_submit lib kwargs (submit_too lib request w)
           \<and> (\<forall>e. UVOTXRTRequest lib request = Inl e \<longrightarrow>
                 submit lib kwargs request w = (Some e, request, w)))
      \<and> (request_type = PStr ''XRT API'' \<longrightarrow>
           submit lib kwargs request w = after_submit lib kwargs (submit_xrt lib request w)
           \<and> (\<forall>e. XRTAPIRequest lib request = Inl e \<longrightarrow>
                 submit lib kwargs request w = (Some e, request, w)))
      \<and> (request_type = PStr ''XRT/UVOT/BAT Data'' \<longrightarrow>
           submit lib kwargs request w = after_submit lib kwargs (submit_data lib request w)
           \<and> (\<forall>e. UVOTXRTBATDataRequest lib request = Inl e \<longrightarrow>
                 submit lib kwargs request w = (Some e, request, w))))"
proof (intro impI conjI allI)
  assume "altdata (allocation request) \<noteq> []"
    and "map_of (payload request) ''request_type'' = None"
  then show "submit lib kwargs request w = (Some (KeyError ''request_type''), request, w)"
    by (simp add: submit_def submit_request_def getitem_def)
next
  fix request_type
  assume a: "altdata (allocation request) \<noteq> []"
    and t: "map_of (payload request) ''request_type'' = Some request_type"
  note d = submit_dispatch [OF a t, of lib kwargs w]
  {
    assume "request_type \<notin> {PStr ''XRT/UVOT ToO'', PStr ''XRT API'', PStr ''XRT/UVOT/BAT Data''}"
    with d show "submit lib kwargs request w =
        (Some (ValueError ''Invalid request type.''), request, w)"
      by simp
  next
    assume "request_type = PStr ''XRT/UVOT ToO''"
    with d show s: "submit lib kwargs request w =
        after_submit lib kwargs (submit_too lib request w)"
      by simp
    fix e assume "UVOTXRTRequest lib request = Inl e"
    with s show "submit lib kwargs request w = (Some e, request, w)"
      by (simp add: submit_too_def)
  next
    assume "request_type = PStr ''XRT API''"
    with d show s: "submit lib kwargs request w =
        after_submit lib kwargs (submit_xrt lib request w)"
      by simp
    fix e assume "XRTAPIRequest lib request = Inl e"
    with s show "submit lib kwargs request w = (Some e, request, w)"
      by (simp add: submit_xrt_def)
  next
    assume "request_type = PStr ''XRT/UVOT/BAT Data''"
    with d show s: "submit lib kwargs request w =
        after_submit lib kwargs (submit_data lib request w)"
      by simp
    fix e assume "UVOTXRTBATDataRequest lib request = Inl e"
    with s show "submit lib kwargs request w = (Some e, request, w)"
      by (simp add: submit_data_def)
  }
qed

lemma data_request_fields [simp]:
  "map_of (payload data_request) ''request_type'' = Some (PStr ''XRT/UVOT/BAT Data'')"
  "map_of (payload data_request) ''start_date'' = Some (PStr ''2023-01-02 03:04:05'')"
  "map_of (payload data_request) ''end_date'' = Some (PStr ''2024-01-02 03:04:05'')"
  "map_of (altdata (allocation data_request)) ''notification_type'' = None"
  "altdata (allocation data_request) \<noteq> []"
  by (simp_all add: data_request_def too_request_def swift_allocation_def)

lemma notify_none:
  "map_of (altdata (allocation request)) ''notification_type'' = None \<Longrightarrow>
   notify lib request w = w"
  by (simp add: notify_def dict_get_def)

lemma refresh_nothing [simp]: "refresh [] request w = w"
  by (simp add: refresh_pushes dict_get_def)

lemma too_request_submitted:
  "\<exists>w'. submit swift_library [] too_request empty_world =
     (None, too_request\<lparr>status := ''submitted''\<rparr>, w')"
proof -
  obtain too where "UVOTXRTRequest swift_library too_request = Inr too"
    using too_request_builds by blast
  then have "\<exists>w'. submit_too swift_library too_request empty_world =
      (None, too_request\<lparr>status := ''submitted''\<rparr>, w')"
    by (simp add: submit_too_def answer_def)
  then show ?thesis
    by (auto simp: submit_dispatch [of too_request "PStr ''XRT/UVOT ToO''"])
qed

lemma xrt_request_submitted:
  "\<exists>w'. submit swift_library [] xrt_request empty_world =
     (None, xrt_request\<lparr>status := ''submitted''\<rparr>, w')"
proof -
  obtain swiftreq where "XRTAPIRequest swift_library xrt_request = Inr swiftreq"
    using xrt_request_builds by blast
  then have "\<exists>w'. submit_xrt swift_library xrt_request empty_world =
      (None, xrt_request\<lparr>status := ''submitted''\<rparr>, w')"
    by (simp add: submit_xrt_def answer_def loads_def py_getitem_def getitem_def)
  then show ?thesis
    by (auto simp: submit_dispatch [of xrt_request "PStr ''XRT API''"])
qed

lemma data_request_returns:
  "\<exists>request'. submit backfill_library [] data_request empty_world =
     (None, request', empty_world)"
proof -
  have "\<exists>request'. submit_data backfill_library data_request empty_world =
      (None, request', empty_world)
      \<and> map_of (altdata (allocation request')) ''notification_type'' = None"
    by (simp add: submit_data_def UVOTXRTBATDataRequest_def getitem_def Let_def)
  then show ?thesis
    by (auto simp: submit_dispatch [of data_request "PStr ''XRT/UVOT/BAT Data''"] notify_none)
qed

theorem submit_records_exchange_witness:
  "(\<exists>w'. submit swift_library [] too_request empty_world =
           (None, too_request\<lparr>status := ''submitted''\<rparr>, w')
         \<and> length (session_added w') = 1)
   \<and> (\<exists>w'. submit swift_library [] xrt_request empty_world =
           (None, xrt_request\<lparr>status := ''submitted''\<rparr>, w')
         \<and> length (session_added w') = 1)
   \<and> length (ObsQuery backfill_library
        \<lparr>q_ra = obj_ra (obj data_request), q_dec = obj_dec (obj data_request),
         q_radius = PFloat (5 / 60), q_begin = PStr ''2023-01-02 03:04:05'',
         q_end = PStr ''2024-01-02 03:04:05''\<rparr>) = 2
   \<and> submit backfill_library [] data_request empty_world =
        (None, data_request\<lparr>status := ''Number of observations: 2''\<rparr>, empty_world)
   \<and> session_added empty_world = []"
proof -
  have e: "session_added empty_world = []"
    by (simp add: empty_world_def)
  obtain w1 where w1: "submit swift_library [] too_request empty_world =
      (None, too_request\<lparr>status := ''submitted''\<rparr>, w1)"
    using too_request_submitted by blast
  with submit_records_exchange [where request = too_request
      and request_type = "PStr ''XRT/UVOT ToO''" and lib = swift_library and kwargs = "[]"
      and w = empty_world and e = None and request' = "too_request\<lparr>status := ''submitted''\<rparr>"
      and w' = w1]
  have l1: "length (session_added w1) = 1"
    by (auto simp: e)
  obtain w2 where w2: "submit swift_library [] xrt_request empty_world =
      (None, xrt_request\<lparr>status := ''submitted''\<rparr>, w2)"
    using xrt_request_submitted by blast
  with submit_records_exchange [where request = xrt_request
      and request_type = "PStr ''XRT API''" and lib = swift_library and kwargs = "[]"
      and w = empty_world and e = None and request' = "xrt_request\<lparr>status := ''submitted''\<rparr>"
      and w' = w2]
  have l2: "length (session_added w2) = 1"
    by (auto simp: e)
  have two: "\<And>q. length (ObsQuery backfill_library q) = 2"
    by (simp add: backfill_ObsQuery)
  have s2: "str_nat 2 = ''2''"
    by (simp add: str_nat_digit digit_char_def)
  obtain r' where r': "submit backfill_library [] data_request empty_world =
      (None, r', empty_world)"
    using data_request_returns by blast
  with submit_records_exchange [where request = data_request
      and request_type = "PStr ''XRT/UVOT/BAT Data''" and lib = backfill_library
      and kwargs = "[]" and w = empty_world and e = None and request' = r'
      and w' = empty_world]
  have "r' = data_request\<lparr>status := ''Number of observations: 2''\<rparr>"
    by (auto simp: two s2)
  with r' have d: "submit backfill_library [] data_request empty_world =
        (None, data_request\<lparr>status := ''Number of observations: 2''\<rparr>, empty_world)"
    by simp
  from w1 l1 w2 l2 two d e show ?thesis
    by blast
qed

theorem submit_request_type_witness:
  "submit swift_library [] (with_field ''request_type'' (PStr ''XRT'') too_request) empty_world =
     (Some (ValueError ''Invalid request type.''),
      with_field ''request_type'' (PStr ''XRT'') too_request, empty_world)
   \<and> submit swift_library [] too_request empty_world =
       after_submit swift_library [] (submit_too swift_library too_request empty_world)
   \<and> submit swift_library [] xrt_request empty_world =
       after_submit swift_library [] (submit_xrt swift_library xrt_request empty_world)
   \<and> submit swift_library [] data_request empty_world =
       after_submit swift_library [] (submit_data swift_library data_request empty_world)
   \<and> submit swift_library [] (xrt_request\<lparr>payload := []\<rparr>) empty_world =
       (Some (KeyError ''request_type''), xrt_request\<lparr>payload := []\<rparr>, empty_world)"
proof -
  let ?r = "with_field ''request_type'' (PStr ''XRT'') too_request"
  have "altdata (allocation ?r) \<noteq> []"
    by simp
  with submit_request_type [of ?r swift_library "[]" empty_world]
  have a: "submit swift_library [] ?r empty_world =
     (Some (ValueError ''Invalid request type.''), ?r, empty_world)"
    by (simp add: with_field_payload)
  from submit_request_type [of too_request swift_library "[]" empty_world]
  have t: "submit swift_library [] too_request empty_world =
       after_submit swift_library [] (submit_too swift_library too_request empty_world)"
    by simp
  from submit_request_type [of xrt_request swift_library "[]" empty_world]
  have x: "submit swift_library [] xrt_request empty_world =
       after_submit swift_library [] (submit_xrt swift_library xrt_request empty_world)"
    by simp
  from submit_request_type [of data_request swift_library "[]" empty_world]
  have b: "submit swift_library [] data_request empty_world =
       after_submit swift_library [] (submit_data swift_library data_request empty_world)"
    by simp
  let ?n = "xrt_request\<lparr>payload := []\<rparr>"
  have "altdata (allocation ?n) \<noteq> []"
    by simp
  with submit_request_type [of ?n swift_library "[]" empty_world]
  have c: "submit swift_library [] ?n empty_world = (Some (KeyError ''request_type''), ?n, empty_world)"
    by simp
  from a t x b c show ?thesis by blast
qed

theorem missing_request_type_counterexample:
  "map_of (payload (xrt_request\<lparr>payload := []\<rparr>)) ''request_type'' = None
   \<and> altdata (allocation (xrt_request\<lparr>payload := []\<rparr>)) \<noteq> []
   \<and> submit swift_library [] (xrt_request\<lparr>payload := []\<rparr>) empty_world =
       (Some (KeyError ''request_type''), xrt_request\<lparr>payload := []\<rparr>, empty_world)
   \<and> \<not> is_ValueError (KeyError ''request_type'')"
  by (simp add: submit_def submit_request_def getitem_def)

end
